theory Spec2Isabelle
  imports Main
begin

section \<open>Untyped response payloads\<close>

text \<open>
  The account manager walks through response payloads that carry no static type: every
  member access, every call of an array method and every comparison is decided at run
  time. A payload is therefore a value of the language: \<open>undefined\<close>, \<open>null\<close>, a
  boolean, a number, a string, an array or an object. An object is the list of its own
  members in enumeration order (a lookup takes the first entry of a name). Strings are
  lists of code units below 256. Numbers stay abstract (type \<open>'n\<close>): what the module
  needs of them is collected in a \<open>js_runtime\<close>, and every theorem holds for each one.
\<close>

datatype 'n json =
    JUndefined
  | JNull
  | JBool bool
  | JNum 'n
  | JStr string
  | JArr "'n json list"
  | JObj "(string \<times> 'n json) list"

record 'n js_runtime =
  num_to_string :: "'n \<Rightarrow> string"
  num_truthy :: "'n \<Rightarrow> bool"
  bool_to_num :: "bool \<Rightarrow> 'n"
  str_loose_eq_num :: "string \<Rightarrow> 'n \<Rightarrow> bool"

text \<open>
  What a failing run raises: the module's own \<open>InnertubeError\<close> (message and info
  object), a \<open>TypeError\<close> (with the message of line 197, or \<open>None\<close> for the
  engine's own wording when a member of \<open>undefined\<close> or \<open>null\<close> is read or a
  non-function is called), or whatever a collaborator outside this module raised.
\<close>

datatype ('n, 'x) error =
    InnertubeError string "'n json"
  | TypeError "string option"
  | External 'x

type_synonym ('n, 'x, 'a) result = "('n, 'x) error + 'a"

definition bindE :: "('n, 'x, 'a) result \<Rightarrow> ('a \<Rightarrow> ('n, 'x, 'b) result) \<Rightarrow> ('n, 'x, 'b) result" where
  "bindE m f = (case m of Inl e \<Rightarrow> Inl e | Inr a \<Rightarrow> f a)"

fun nullish :: "'n json \<Rightarrow> bool" where
  "nullish JUndefined = True"
| "nullish JNull = True"
| "nullish _ = False"

fun join_with :: "string \<Rightarrow> string list \<Rightarrow> string" where
  "join_with sep [] = []"
| "join_with sep [x] = x"
| "join_with sep (x # y # ys) = x @ sep @ join_with sep (y # ys)"

text \<open>
  \<open>toString\<close> is the conversion of a value to a string; an array converts by joining its
  elements with a comma, where \<open>undefined\<close> and \<open>null\<close> elements give the empty string.
\<close>

fun toString :: "'n js_runtime \<Rightarrow> 'n json \<Rightarrow> string" where
  "toString rt JUndefined = ''undefined''"
| "toString rt JNull = ''null''"
| "toString rt (JBool b) = (if b then ''true'' else ''false'')"
| "toString rt (JNum n) = num_to_string rt n"
| "toString rt (JStr s) = s"
| "toString rt (JArr xs) =
     join_with '','' (map (\<lambda>x. if nullish x then [] else toString rt x) xs)"
| "toString rt (JObj fs) = ''[object Object]''"

definition elem_string :: "'n js_runtime \<Rightarrow> 'n json \<Rightarrow> string" where
  "elem_string rt x = (if nullish x then [] else toString rt x)"

text \<open>\<open>xs.join(sep)\<close> on the elements of an array.\<close>

definition array_join :: "'n js_runtime \<Rightarrow> string \<Rightarrow> 'n json list \<Rightarrow> string" where
  "array_join rt sep xs = join_with sep (map (elem_string rt) xs)"

fun truthy :: "'n js_runtime \<Rightarrow> 'n json \<Rightarrow> bool" where
  "truthy rt JUndefined = False"
| "truthy rt JNull = False"
| "truthy rt (JBool b) = b"
| "truthy rt (JNum n) = num_truthy rt n"
| "truthy rt (JStr s) = (s \<noteq> [])"
| "truthy rt (JArr xs) = True"
| "truthy rt (JObj fs) = True"

text \<open>
  \<open>v == s\<close> for a string \<open>s\<close>: a string compares by its code units, \<open>undefined\<close>
  and \<open>null\<close> equal no string, a number or a boolean compares with the number the string
  denotes, an array or object by its string conversion.
\<close>

fun loose_eq_str :: "'n js_runtime \<Rightarrow> 'n json \<Rightarrow> string \<Rightarrow> bool" where
  "loose_eq_str rt JUndefined s = False"
| "loose_eq_str rt JNull s = False"
| "loose_eq_str rt (JBool b) s = str_loose_eq_num rt s (bool_to_num rt b)"
| "loose_eq_str rt (JNum n) s = str_loose_eq_num rt s n"
| "loose_eq_str rt (JStr t) s = (t = s)"
| "loose_eq_str rt (JArr xs) s = (toString rt (JArr xs) = s)"
| "loose_eq_str rt (JObj fs) s = (toString rt (JObj fs) = s)"

text \<open>
  \<open>v.name\<close>, for the member names this module reads (none of them is an index,
  \<open>length\<close> or a name found on a prototype): reading a member of \<open>undefined\<close> or
  \<open>null\<close> raises a TypeError, an object gives its member or \<open>undefined\<close>, every
  other value gives \<open>undefined\<close>.
\<close>

fun get :: "'n json \<Rightarrow> string \<Rightarrow> ('n, 'x, 'n json) result" where
  "get JUndefined k = Inl (TypeError None)"
| "get JNull k = Inl (TypeError None)"
| "get (JObj fs) k = Inr (case map_of fs k of None \<Rightarrow> JUndefined | Some v \<Rightarrow> v)"
| "get _ k = Inr JUndefined"

text \<open>A chain of member reads, \<open>v.a.b.c\<close>, left to right.\<close>

fun path :: "'n json \<Rightarrow> string list \<Rightarrow> ('n, 'x, 'n json) result" where
  "path v [] = Inr v"
| "path v (k # ks) = bindE (get v k) (\<lambda>u. path u ks)"

fun show_nat :: "nat \<Rightarrow> string" where
  "show_nat n =
     (if n < 10 then [''0123456789'' ! n]
      else show_nat (n div 10) @ [''0123456789'' ! (n mod 10)])"

declare show_nat.simps [simp del]

text \<open>\<open>v[i]\<close> for an index \<open>i\<close>.\<close>

fun at_index :: "'n json \<Rightarrow> nat \<Rightarrow> ('n, 'x, 'n json) result" where
  "at_index JUndefined i = Inl (TypeError None)"
| "at_index JNull i = Inl (TypeError None)"
| "at_index (JArr xs) i = Inr (if i < length xs then xs ! i else JUndefined)"
| "at_index (JObj fs) i = Inr (case map_of fs (show_nat i) of None \<Rightarrow> JUndefined | Some v \<Rightarrow> v)"
| "at_index (JStr s) i = Inr (if i < length s then JStr [s ! i] else JUndefined)"
| "at_index _ i = Inr JUndefined"

text \<open>
  \<open>xs.map(f)\<close> with a callback that may raise: elements are visited in order and the
  first exception ends the call.
\<close>

fun mapE :: "('a \<Rightarrow> ('n, 'x, 'b) result) \<Rightarrow> 'a list \<Rightarrow> ('n, 'x, 'b list) result" where
  "mapE f [] = Inr []"
| "mapE f (x # xs) = bindE (f x) (\<lambda>y. bindE (mapE f xs) (\<lambda>ys. Inr (y # ys)))"

text \<open>
  \<open>xs.find(p)\<close>: the first element for which the callback holds, \<open>undefined\<close> when
  there is none; an exception of the callback ends the call.
\<close>

fun findE :: "('n json \<Rightarrow> ('n, 'x, bool) result) \<Rightarrow> 'n json list \<Rightarrow> ('n, 'x, 'n json) result" where
  "findE p [] = Inr JUndefined"
| "findE p (x # xs) = bindE (p x) (\<lambda>b. if b then Inr x else findE p xs)"

text \<open>
  Calling an array method on a value: only an array has \<open>map\<close> and \<open>find\<close>; on
  \<open>undefined\<close> and \<open>null\<close> the member read raises, on any other value the call of a
  non-function does.
\<close>

fun as_array :: "'n json \<Rightarrow> ('n, 'x, 'n json list) result" where
  "as_array (JArr xs) = Inr xs"
| "as_array _ = Inl (TypeError None)"

text \<open>
  \<open>s.trim()\<close> removes white space and line terminators from both ends; among the code
  units below 256 these are tab, line feed, vertical tab, form feed, carriage return, space
  and the no-break space.
\<close>

definition is_space :: "char \<Rightarrow> bool" where
  "is_space c = (c \<in> {CHR 0x09, CHR 0x0A, CHR 0x0B, CHR 0x0C, CHR 0x0D, CHR 0x20, CHR 0xA0})"

definition trim :: "string \<Rightarrow> string" where
  "trim s = rev (dropWhile is_space (rev (dropWhile is_space s)))"


section \<open>Node search\<close>

text \<open>
  Modelled from the spec: \<open>findNode\<close> is imported from the utilities module, which is not
  among the sources; only its calls are. The spec describes it as a search that
  "recurses through response payloads by key name until a target key is found or a depth
  limit is exceeded", a "recursive key-name lookup through a nested, untyped response tree
  with a depth bound and failure flag". The search is written over any structure of nodes
  \<open>props\<close>, giving each node its members (name and child) in order, so that it also runs
  on structures that are no finite trees. A node is examined, then its children in order,
  one level deeper; a node deeper than the limit is not examined.
\<close>

fun first_some :: "'a option list \<Rightarrow> 'a option" where
  "first_some [] = None"
| "first_some (Some x # xs) = Some x"
| "first_some (None # xs) = first_some xs"

definition has_key :: "('v \<Rightarrow> (string \<times> 'v) list) \<Rightarrow> string \<Rightarrow> 'v \<Rightarrow> bool" where
  "has_key props target v = (target \<in> set (map fst (props v)))"

fun search :: "('v \<Rightarrow> (string \<times> 'v) list) \<Rightarrow> string \<Rightarrow> nat \<Rightarrow> 'v \<Rightarrow> 'v option" where
  "search props target 0 v = (if has_key props target v then Some v else None)"
| "search props target (Suc d) v =
     (if has_key props target v then Some v
      else first_some (map (\<lambda>c. search props target d c) (map snd (props v))))"

text \<open>
  Modelled from the spec: the nodes the search examines when the target key is nowhere,
  in the order it examines them (a node, then the subtrees of its children, while the
  depth limit allows).
\<close>

fun examined :: "('v \<Rightarrow> (string \<times> 'v) list) \<Rightarrow> nat \<Rightarrow> 'v \<Rightarrow> 'v list" where
  "examined props 0 v = [v]"
| "examined props (Suc d) v = v # concat (map (\<lambda>c. examined props d c) (map snd (props v)))"

text \<open>
  Modelled from the spec: a node lies within \<open>d\<close> levels below \<open>v\<close>.
\<close>

inductive within :: "('v \<Rightarrow> (string \<times> 'v) list) \<Rightarrow> nat \<Rightarrow> 'v \<Rightarrow> 'v \<Rightarrow> bool"
  for props :: "'v \<Rightarrow> (string \<times> 'v) list" where
  here: "within props d v v"
| below: "(k, c) \<in> set (props v) \<Longrightarrow> within props d c u \<Longrightarrow> within props (Suc d) v u"

text \<open>
  Modelled from the spec: \<open>findNode\<close> with the five arguments of its calls in this module
  (payload, a key name, the target key name, the depth limit, the failure flag). The
  spec gives the second argument no role of its own, so the search does not depend on it;
  it says that the behaviour on failure is controlled by the flag without saying how, so
  that behaviour is the parameter \<open>on_failure\<close>, applied to the flag.
\<close>

definition findNode ::
  "('v \<Rightarrow> (string \<times> 'v) list) \<Rightarrow> (bool \<Rightarrow> 'e + 'v) \<Rightarrow> 'v \<Rightarrow> string \<Rightarrow> string \<Rightarrow> nat \<Rightarrow> bool \<Rightarrow> 'e + 'v" where
  "findNode props on_failure obj key target depth flag =
     (case search props target depth obj of
        Some node \<Rightarrow> Inr node
      | None \<Rightarrow> on_failure flag)"

text \<open>
  Modelled from the spec: the members of a payload, for searching it: an object has its
  own members, an array its elements under their indices, any other value none.
\<close>

fun json_props :: "'n json \<Rightarrow> (string \<times> 'n json) list" where
  "json_props (JObj fs) = fs"
| "json_props (JArr xs) = zip (map show_nat [0..<length xs]) xs"
| "json_props _ = []"

section \<open>The module's imports\<close>

text \<open>
  The account manager imports \<open>throwIfMissing\<close> and \<open>findNode\<close> from the utilities,
  the table \<open>Constants.ACCOUNT_SETTINGS\<close>, the parameter encoder
  \<open>Proto.encodeChannelAnalyticsParams\<close> and the class \<open>Analytics\<close>. None of them is
  among the sources, so the methods take them as parameters: \<open>throwIfMissing\<close> may raise
  on the object it is given, the others return a value or raise.
\<close>

record ACCOUNT_SETTINGS =
  SUBSCRIPTIONS :: string
  RECOMMENDED_VIDEOS :: string
  CHANNEL_ACTIVITY :: string
  COMMENT_REPLIES :: string
  USER_MENTION :: string
  SHARED_CONTENT :: string
  SUBSCRIPTIONS_PRIVACY :: string
  PLAYLISTS_PRIVACY :: string

record ('n, 'x, 'a) imported =
  runtime :: "'n js_runtime"
  Utils_throwIfMissing :: "'n json \<Rightarrow> 'x option"
  Utils_findNode :: "'n json \<Rightarrow> string \<Rightarrow> string \<Rightarrow> nat \<Rightarrow> bool \<Rightarrow> 'x + 'n json"
  Constants_ACCOUNT_SETTINGS :: ACCOUNT_SETTINGS
  Proto_encodeChannelAnalyticsParams :: "'n json \<Rightarrow> 'x + 'n json"
  Analytics_new :: "'n json \<Rightarrow> 'x + 'a"

definition external :: "'x + 'a \<Rightarrow> ('n, 'x, 'a) result" where
  "external r = (case r of Inl x \<Rightarrow> Inl (External x) | Inr v \<Rightarrow> Inr v)"

section \<open>The dispatcher and the instance\<close>

text \<open>
  The request dispatcher \<open>Actions\<close> is injected. Each of its three methods used here
  takes the list of arguments of the call and answers with a response or a rejection; it
  may change the world outside this module (type \<open>'w\<close>: its own state and the
  service's). The state of a run is the instance (its private field \<open>#actions\<close>), that
  outside world, and the calls made on the dispatcher so far, oldest first. A method is a
  function from the state to its outcome and the state after it; a rejected promise and a
  raised exception are both the outcome \<open>Inl\<close>. The two public fields of the instance,
  \<open>channel\<close> and \<open>settings\<close>, hold the member functions themselves; no line of the
  class assigns them, and they appear here as the functions of the next section.
\<close>

datatype endpoint = Channel | Browse | Account

record ('w, 'n, 'x) Actions =
  channel :: "'n json list \<Rightarrow> 'w \<Rightarrow> ('x + 'n json) \<times> 'w"
  browse :: "'n json list \<Rightarrow> 'w \<Rightarrow> ('x + 'n json) \<times> 'w"
  account :: "'n json list \<Rightarrow> 'w \<Rightarrow> ('x + 'n json) \<times> 'w"

record ('w, 'n, 'x) AccountManager =
  actions :: "('w, 'n, 'x) Actions"

record ('w, 'n, 'x) state =
  this :: "('w, 'n, 'x) AccountManager"
  outside :: 'w
  sent :: "(endpoint \<times> 'n json list) list"

type_synonym ('w, 'n, 'x, 'a) run =
  "('w, 'n, 'x) state \<Rightarrow> ('n, 'x, 'a) result \<times> ('w, 'n, 'x) state"

definition constructor :: "('w, 'n, 'x) Actions \<Rightarrow> ('w, 'n, 'x) AccountManager" where
  "constructor acts = \<lparr>actions = acts\<rparr>"

definition thenE :: "('w, 'n, 'x, 'a) run \<Rightarrow> ('a \<Rightarrow> ('w, 'n, 'x, 'b) run) \<Rightarrow> ('w, 'n, 'x, 'b) run" where
  "thenE m f s = (case m s of (Inl e, s') \<Rightarrow> (Inl e, s') | (Inr a, s') \<Rightarrow> f a s')"

definition pureE :: "('n, 'x, 'a) result \<Rightarrow> ('w, 'n, 'x, 'a) run" where
  "pureE r s = (r, s)"

text \<open>\<open>await this.#actions.ep(...args)\<close>: one call on the dispatcher.\<close>

definition call :: "endpoint \<Rightarrow> 'n json list \<Rightarrow> ('w, 'n, 'x, 'n json) run" where
  "call ep args s =
     (let act = (case ep of Channel \<Rightarrow> channel | Browse \<Rightarrow> browse | Account \<Rightarrow> account)
                  (actions (this s));
          (r, w) = act args (outside s)
      in (external r, s\<lparr>outside := w, sent := sent s @ [(ep, args)]\<rparr>))"

section \<open>The account manager\<close>

subsection \<open>channel\<close>

definition channel_editName :: "string \<Rightarrow> ('w, 'n, 'x, 'n json) run" where
  "channel_editName new_name =
     call Channel [JStr ''channel/edit_name'', JObj [(''new_name'', JStr new_name)]]"

definition channel_editDescription :: "string \<Rightarrow> ('w, 'n, 'x, 'n json) run" where
  "channel_editDescription new_description =
     call Channel [JStr ''channel/edit_description'',
                   JObj [(''new_description'', JStr new_description)]]"

subsection \<open>setSetting\<close>

text \<open>
  The table \<open>values\<close> of line 166, the test \<open>values.hasOwnProperty(new_value)\<close> and
  the read \<open>values[new_value]\<close>: both take the string conversion of \<open>new_value\<close> as
  the member name. The read is only reached for a name the test has accepted.
\<close>

definition values_obj :: "(string \<times> bool) list" where
  "values_obj = [(''ON'', True), (''OFF'', False)]"

definition values_hasOwnProperty :: "'n js_runtime \<Rightarrow> 'n json \<Rightarrow> bool" where
  "values_hasOwnProperty rt new_value = (toString rt new_value \<in> set (map fst values_obj))"

definition values_at :: "'n js_runtime \<Rightarrow> 'n json \<Rightarrow> 'n json" where
  "values_at rt new_value =
     (case map_of values_obj (toString rt new_value) of
        Some b \<Rightarrow> JBool b
      | None \<Rightarrow> JUndefined)"

text \<open>The function called on the spot in lines 177 to 199, which selects the options.\<close>

definition setSetting_contents ::
  "('n, 'x, 'a) imported \<Rightarrow> string \<Rightarrow> 'n json \<Rightarrow> ('n, 'x, 'n json) result" where
  "setSetting_contents env type response =
     (if trim type = ''SPaccount_notifications'' then
        bindE (get response ''data'') (\<lambda>data.
        bindE (external (Utils_findNode env data ''contents'' ''Your preferences'' 13 False)) (\<lambda>node.
        get node ''options''))
      else if trim type = ''SPaccount_privacy'' then
        bindE (get response ''data'') (\<lambda>data.
        bindE (external (Utils_findNode env data ''contents'' ''settingsSwitchRenderer'' 13 False)) (\<lambda>node.
        get node ''options''))
      else Inl (TypeError (Some ''undefined is not a function'')))"

definition setSettingEndpoint :: "string list" where
  "setSettingEndpoint = [''settingsSwitchRenderer'', ''enableServiceEndpoint'', ''setSettingEndpoint'']"

text \<open>The callback of \<open>contents.find\<close> in lines 202 to 204.\<close>

definition option_matches ::
  "'n js_runtime \<Rightarrow> string \<Rightarrow> 'n json \<Rightarrow> ('n, 'x, bool) result" where
  "option_matches rt setting_id option =
     bindE (path option (setSettingEndpoint @ [''settingItemIdForClient''])) (\<lambda>id.
     Inr (loose_eq_str rt id setting_id))"

definition setSetting ::
  "('n, 'x, 'a) imported \<Rightarrow> string \<Rightarrow> string \<Rightarrow> 'n json \<Rightarrow> ('w, 'n, 'x, 'n json) run" where
  "setSetting env setting_id type new_value =
     (case Utils_throwIfMissing env
             (JObj [(''setting_id'', JStr setting_id), (''type'', JStr type),
                    (''new_value'', new_value)]) of
        Some x \<Rightarrow> pureE (Inl (External x))
      | None \<Rightarrow>
          if \<not> values_hasOwnProperty (runtime env) new_value then
            pureE (Inl (InnertubeError ''Invalid option''
              (JObj [(''option'', new_value),
                     (''available_options'', JArr (map (\<lambda>kv. JStr (fst kv)) values_obj))])))
          else
            thenE (call Browse [JStr type]) (\<lambda>response.
            thenE (pureE (setSetting_contents env type response)) (\<lambda>contents.
            thenE (pureE (bindE (as_array contents)
                           (findE (option_matches (runtime env) setting_id)))) (\<lambda>option.
            thenE (pureE (path option (setSettingEndpoint @ [''settingItemId'']))) (\<lambda>setting_item_id.
            call Account
              [JStr ''account/set_setting'',
               JObj [(''new_value'',
                        if type = ''SPaccount_privacy''
                        then JBool (\<not> truthy (runtime env) (values_at (runtime env) new_value))
                        else values_at (runtime env) new_value),
                     (''setting_item_id'', setting_item_id)]])))))"

subsection \<open>settings\<close>

text \<open>
  The members of \<open>settings.notifications\<close> and \<open>settings.privacy\<close>; \<open>settings\<close>
  gives each its function. The declared type of \<open>option\<close> is \<open>boolean\<close>, the
  documented values are \<open>ON\<close> and \<open>OFF\<close>; at run time any value can arrive.
\<close>

datatype notifications =
    setSubscriptions
  | setRecommendedVideos
  | setChannelActivity
  | setCommentReplies
  | setMentions
  | setSharedContent

datatype privacy =
    setSubscriptionsPrivate
  | setSavedPlaylistsPrivate

datatype settings_member =
    notifications notifications
  | privacy privacy

fun settings ::
  "('n, 'x, 'a) imported \<Rightarrow> settings_member \<Rightarrow> 'n json \<Rightarrow> ('w, 'n, 'x, 'n json) run" where
  "settings env (notifications setSubscriptions) option =
     setSetting env (SUBSCRIPTIONS (Constants_ACCOUNT_SETTINGS env)) ''SPaccount_notifications'' option"
| "settings env (notifications setRecommendedVideos) option =
     setSetting env (RECOMMENDED_VIDEOS (Constants_ACCOUNT_SETTINGS env)) ''SPaccount_notifications'' option"
| "settings env (notifications setChannelActivity) option =
     setSetting env (CHANNEL_ACTIVITY (Constants_ACCOUNT_SETTINGS env)) ''SPaccount_notifications'' option"
| "settings env (notifications setCommentReplies) option =
     setSetting env (COMMENT_REPLIES (Constants_ACCOUNT_SETTINGS env)) ''SPaccount_notifications'' option"
| "settings env (notifications setMentions) option =
     setSetting env (USER_MENTION (Constants_ACCOUNT_SETTINGS env)) ''SPaccount_notifications'' option"
| "settings env (notifications setSharedContent) option =
     setSetting env (SHARED_CONTENT (Constants_ACCOUNT_SETTINGS env)) ''SPaccount_notifications'' option"
| "settings env (privacy setSubscriptionsPrivate) option =
     setSetting env (SUBSCRIPTIONS_PRIVACY (Constants_ACCOUNT_SETTINGS env)) ''SPaccount_privacy'' option"
| "settings env (privacy setSavedPlaylistsPrivate) option =
     setSetting env (PLAYLISTS_PRIVACY (Constants_ACCOUNT_SETTINGS env)) ''SPaccount_privacy'' option"

text \<open>The setting id and the settings type a member passes on.\<close>

fun setting_id_of :: "ACCOUNT_SETTINGS \<Rightarrow> settings_member \<Rightarrow> string" where
  "setting_id_of c (notifications setSubscriptions) = SUBSCRIPTIONS c"
| "setting_id_of c (notifications setRecommendedVideos) = RECOMMENDED_VIDEOS c"
| "setting_id_of c (notifications setChannelActivity) = CHANNEL_ACTIVITY c"
| "setting_id_of c (notifications setCommentReplies) = COMMENT_REPLIES c"
| "setting_id_of c (notifications setMentions) = USER_MENTION c"
| "setting_id_of c (notifications setSharedContent) = SHARED_CONTENT c"
| "setting_id_of c (privacy setSubscriptionsPrivate) = SUBSCRIPTIONS_PRIVACY c"
| "setting_id_of c (privacy setSavedPlaylistsPrivate) = PLAYLISTS_PRIVACY c"

fun type_of :: "settings_member \<Rightarrow> string" where
  "type_of (notifications m) = ''SPaccount_notifications''"
| "type_of (privacy m) = ''SPaccount_privacy''"

subsection \<open>getInfo, getTimeWatched, getAnalytics\<close>

text \<open>\<open>runs.map((run) => run.text).join("")\<close>\<close>

definition run_texts :: "'n json \<Rightarrow> ('n, 'x, 'n json list) result" where
  "run_texts runs = bindE (as_array runs) (mapE (\<lambda>run. get run ''text''))"

definition joined_texts :: "'n js_runtime \<Rightarrow> 'n json \<Rightarrow> ('n, 'x, 'n json) result" where
  "joined_texts rt runs = bindE (run_texts runs) (\<lambda>texts. Inr (JStr (array_join rt [] texts)))"

definition getInfo :: "('n, 'x, 'a) imported \<Rightarrow> ('w, 'n, 'x, 'n json) run" where
  "getInfo env =
     thenE (call Account [JStr ''account/accounts_list'', JObj [(''client'', JStr ''ANDROID'')]])
     (\<lambda>response. pureE (
        bindE (get response ''data'') (\<lambda>data.
        bindE (external (Utils_findNode env data ''contents'' ''accountItem'' 8 False))
        (\<lambda>account_item_section_renderer.
        bindE (path account_item_section_renderer
                 [''accountItem'', ''serviceEndpoint'', ''signInEndpoint'', ''directSigninUserProfile''])
        (\<lambda>profile.
        bindE (get profile ''accountName'') (\<lambda>name.
        bindE (get profile ''email'') (\<lambda>email.
        bindE (path profile [''accountPhoto'', ''thumbnails'']) (\<lambda>photo.
        bindE (path account_item_section_renderer [''accountItem'', ''accountByline'', ''runs''])
        (\<lambda>runs.
        bindE (joined_texts (runtime env) runs) (\<lambda>subscriber_count.
        bindE (path response [''data'', ''contents'']) (\<lambda>contents.
        bindE (at_index contents 0) (\<lambda>section.
        bindE (path section [''accountSectionListRenderer'', ''footers'']) (\<lambda>footers.
        bindE (at_index footers 0) (\<lambda>footer.
        bindE (path footer [''accountChannelRenderer'', ''navigationEndpoint'',
                            ''browseEndpoint'', ''browseId''])
        (\<lambda>channel_id.
        Inr (JObj [(''name'', name), (''email'', email), (''channel_id'', channel_id),
                   (''subscriber_count'', subscriber_count), (''photo'', photo)])
        )))))))))))))))"

text \<open>The callback of \<open>rows.map\<close> in lines 266 to 274.\<close>

definition stat_of_row :: "'n js_runtime \<Rightarrow> 'n json \<Rightarrow> ('n, 'x, 'n json) result" where
  "stat_of_row rt row =
     bindE (get row ''statRowRenderer'') (\<lambda>renderer.
     if truthy rt renderer then
       bindE (path renderer [''title'', ''runs'']) (\<lambda>title_runs.
       bindE (joined_texts rt title_runs) (\<lambda>title.
       bindE (path renderer [''contents'', ''runs'']) (\<lambda>contents_runs.
       bindE (joined_texts rt contents_runs) (\<lambda>time.
       Inr (JObj [(''title'', title), (''time'', time)])))))
     else Inr JUndefined)"

definition getTimeWatched :: "('n, 'x, 'a) imported \<Rightarrow> ('w, 'n, 'x, 'n json) run" where
  "getTimeWatched env =
     thenE (call Browse [JStr ''SPtime_watched'', JObj [(''client'', JStr ''ANDROID'')]])
     (\<lambda>response. pureE (
        bindE (get response ''data'') (\<lambda>data.
        bindE (external (Utils_findNode env data ''contents'' ''statRowRenderer'' 11 False)) (\<lambda>rows.
        bindE (as_array rows) (\<lambda>rs.
        bindE (mapE (stat_of_row (runtime env)) rs) (\<lambda>stats.
        Inr (JArr (filter (truthy (runtime env)) stats))))))))"

definition getAnalytics :: "('n, 'x, 'a) imported \<Rightarrow> ('w, 'n, 'x, 'a) run" where
  "getAnalytics env =
     thenE (getInfo env) (\<lambda>info.
     thenE (pureE (bindE (get info ''channel_id'') (\<lambda>channel_id.
                   external (Proto_encodeChannelAnalyticsParams env channel_id)))) (\<lambda>params.
     thenE (call Browse [JStr ''FEanalytics_screen'',
                         JObj [(''params'', params), (''client'', JStr ''ANDROID'')]]) (\<lambda>response.
     pureE (bindE (get response ''data'') (\<lambda>data. external (Analytics_new env data))))))"

definition channel_getBasicAnalytics :: "('n, 'x, 'a) imported \<Rightarrow> ('w, 'n, 'x, 'a) run" where
  "channel_getBasicAnalytics env = getAnalytics env"

subsection \<open>Sequences of operations\<close>

text \<open>
  The operations the instance offers, and a run of a sequence of them from a state. Each
  result is dropped here; what remains is the state each operation leaves.
\<close>

datatype 'n operation =
    Channel_editName string
  | Channel_editDescription string
  | Channel_getBasicAnalytics
  | Settings settings_member "'n json"
  | GetInfo
  | GetTimeWatched
  | GetAnalytics

fun perform ::
  "('n, 'x, 'a) imported \<Rightarrow> 'n operation \<Rightarrow> ('w, 'n, 'x) state \<Rightarrow> ('w, 'n, 'x) state" where
  "perform env (Channel_editName new_name) s = snd (channel_editName new_name s)"
| "perform env (Channel_editDescription new_description) s =
     snd (channel_editDescription new_description s)"
| "perform env Channel_getBasicAnalytics s = snd (channel_getBasicAnalytics env s)"
| "perform env (Settings member option) s = snd (settings env member option s)"
| "perform env GetInfo s = snd (getInfo env s)"
| "perform env GetTimeWatched s = snd (getTimeWatched env s)"
| "perform env GetAnalytics s = snd (getAnalytics env s)"

fun perform_all ::
  "('n, 'x, 'a) imported \<Rightarrow> 'n operation list \<Rightarrow> ('w, 'n, 'x) state \<Rightarrow> ('w, 'n, 'x) state" where
  "perform_all env [] s = s"
| "perform_all env (operation # operations) s = perform_all env operations (perform env operation s)"

section \<open>Examples\<close>

text \<open>
  Concrete imports, a concrete dispatcher and concrete payloads, on which the theorems
  below are applied. The numbers of the example runtime are the natural numbers, written in
  decimal; the payloads hold no number.
\<close>

definition example_runtime :: "nat js_runtime" where
  "example_runtime =
     \<lparr>num_to_string = show_nat,
      num_truthy = (\<lambda>n. n \<noteq> 0),
      bool_to_num = (\<lambda>b. if b then 1 else 0),
      str_loose_eq_num = (\<lambda>s n. s = show_nat n)\<rparr>"

text \<open>
  An instance of \<open>throwIfMissing\<close>: it raises for the first member of the object it is
  given whose value is falsy, naming that member.
\<close>

fun first_falsy :: "'n js_runtime \<Rightarrow> (string \<times> 'n json) list \<Rightarrow> string option" where
  "first_falsy rt [] = None"
| "first_falsy rt ((k, v) # fs) = (if truthy rt v then first_falsy rt fs else Some k)"

definition throwIfMissing_falsy :: "'n js_runtime \<Rightarrow> 'n json \<Rightarrow> string option" where
  "throwIfMissing_falsy rt params =
     (case params of
        JObj fs \<Rightarrow> map_option (\<lambda>k. k @ '' is missing'') (first_falsy rt fs)
      | _ \<Rightarrow> None)"

text \<open>
  Two instances of the node search: the search of the previous section on payloads, raising
  on failure whatever the flag, and a stand-in that returns the member \<open>key\<close> of the
  payload.
\<close>

definition findNode_json :: "'n json \<Rightarrow> string \<Rightarrow> string \<Rightarrow> nat \<Rightarrow> bool \<Rightarrow> string + 'n json" where
  "findNode_json = findNode json_props (\<lambda>flag. Inl ''node not found'')"

definition findNode_member :: "'n json \<Rightarrow> string \<Rightarrow> string \<Rightarrow> nat \<Rightarrow> bool \<Rightarrow> string + 'n json" where
  "findNode_member obj key target depth flag =
     (case obj of
        JObj fs \<Rightarrow> (case map_of fs key of Some v \<Rightarrow> Inr v | None \<Rightarrow> Inl ''node not found'')
      | _ \<Rightarrow> Inl ''node not found'')"

definition example_ACCOUNT_SETTINGS :: ACCOUNT_SETTINGS where
  "example_ACCOUNT_SETTINGS =
     \<lparr>SUBSCRIPTIONS = ''NOTIFICATION_SUBSCRIPTION_NOTIFICATIONS'',
      RECOMMENDED_VIDEOS = ''NOTIFICATION_RECOMMENDATION_WEB_CONTROL'',
      CHANNEL_ACTIVITY = ''NOTIFICATION_COMMENT_WEB_CONTROL'',
      COMMENT_REPLIES = ''NOTIFICATION_COMMENT_REPLY_OTHER_WEB_CONTROL'',
      USER_MENTION = ''NOTIFICATION_USER_MENTION_WEB_CONTROL'',
      SHARED_CONTENT = ''NOTIFICATION_RETUBING_WEB_CONTROL'',
      SUBSCRIPTIONS_PRIVACY = ''PRIVACY_DISCOVERABLE_SUBSCRIPTIONS'',
      PLAYLISTS_PRIVACY = ''PRIVACY_DISCOVERABLE_SAVED_PLAYLISTS''\<rparr>"

definition example_imports ::
  "(nat json \<Rightarrow> string \<Rightarrow> string \<Rightarrow> nat \<Rightarrow> bool \<Rightarrow> string + nat json) \<Rightarrow> (nat, string, nat json) imported" where
  "example_imports node_search =
     \<lparr>runtime = example_runtime,
      Utils_throwIfMissing = throwIfMissing_falsy example_runtime,
      Utils_findNode = node_search,
      Constants_ACCOUNT_SETTINGS = example_ACCOUNT_SETTINGS,
      Proto_encodeChannelAnalyticsParams = (\<lambda>channel_id. Inr (JArr [channel_id])),
      Analytics_new = (\<lambda>data. Inr data)\<rparr>"

definition runs_of :: "string list \<Rightarrow> 'n json" where
  "runs_of texts = JObj [(''runs'', JArr (map (\<lambda>t. JObj [(''text'', JStr t)]) texts))]"

definition switch_option :: "string \<Rightarrow> string \<Rightarrow> 'n json" where
  "switch_option client_id item_id =
     JObj [(''settingsSwitchRenderer'',
       JObj [(''enableServiceEndpoint'',
         JObj [(''setSettingEndpoint'',
           JObj [(''settingItemIdForClient'', JStr client_id),
                 (''settingItemId'', JStr item_id)])])])]"

definition settings_page :: "nat json" where
  "settings_page =
     JObj [(''data'',
       JObj [(''contents'',
         JObj [(''options'',
           JArr [switch_option ''NOTIFICATION_RECOMMENDATION_WEB_CONTROL'' ''402'',
                 switch_option ''NOTIFICATION_SUBSCRIPTION_NOTIFICATIONS'' ''407'',
                 switch_option ''PRIVACY_DISCOVERABLE_SUBSCRIPTIONS'' ''501'',
                 switch_option ''NOTIFICATION_SUBSCRIPTION_NOTIFICATIONS'' ''999'',
                 switch_option ''NOTIFICATION_COMMENT_WEB_CONTROL'' ''403'',
                 switch_option ''NOTIFICATION_COMMENT_REPLY_OTHER_WEB_CONTROL'' ''404'',
                 switch_option ''NOTIFICATION_USER_MENTION_WEB_CONTROL'' ''405'',
                 switch_option ''NOTIFICATION_RETUBING_WEB_CONTROL'' ''406'',
                 switch_option ''PRIVACY_DISCOVERABLE_SAVED_PLAYLISTS'' ''502''])])])]"

definition accounts_list_page :: "nat json" where
  "accounts_list_page =
     JObj [
       (''data'', JObj [
         (''contents'', JArr [
           JObj [
             (''accountSectionListRenderer'', JObj [
               (''contents'', JArr [
                 JObj [
                   (''accountItemSectionRenderer'', JObj [
                     (''contents'', JArr [
                       JObj [
                         (''accountItem'', JObj [
                           (''accountByline'', runs_of [''12 '', ''subscribers'']),
                           (''serviceEndpoint'', JObj [
                             (''signInEndpoint'', JObj [
                               (''directSigninUserProfile'', JObj [
                                 (''accountName'', JStr ''Ada''),
                                 (''email'', JStr ''ada@example.org''),
                                 (''accountPhoto'', JObj [
                                   (''thumbnails'', JArr [
                                     JObj [
                                       (''url'', JStr ''p.png'')]])])])])])])]])])]]),
               (''footers'', JArr [
                 JObj [
                   (''accountChannelRenderer'', JObj [
                     (''navigationEndpoint'', JObj [
                       (''browseEndpoint'', JObj [
                         (''browseId'', JStr ''UC123'')])])])]])])]])])]"

definition time_watched_page :: "nat json" where
  "time_watched_page =
     JObj [(''data'',
       JObj [(''contents'', JArr [
         JObj [(''statRowRenderer'',
           JObj [(''title'', runs_of [''Today'']),
                 (''contents'', runs_of [''1 hr'', '' 2 min''])])],
         JObj [(''separatorRenderer'', JObj [])],
         JObj [(''statRowRenderer'',
           JObj [(''title'', runs_of [''Last '', ''7 days'']),
                 (''contents'', runs_of [''9 hr''])])]])])]"

definition example_actions :: "(nat, nat, string) Actions" where
  "example_actions =
     \<lparr>channel = (\<lambda>args w. (Inr (JObj [(''success'', JBool True)]), Suc w)),
      browse = (\<lambda>args w.
        (case args of
           JStr t # _ \<Rightarrow>
             if t = ''SPtime_watched'' then Inr time_watched_page
             else if t = ''FEanalytics_screen'' then Inr (JObj [(''data'', JObj [(''args'', JArr args)])])
             else Inr settings_page
         | _ \<Rightarrow> Inl ''bad request'', Suc w)),
      account = (\<lambda>args w.
        (case args of
           JStr t # _ \<Rightarrow>
             if t = ''account/accounts_list'' then Inr accounts_list_page
             else Inr (JObj [(''success'', JBool True)])
         | _ \<Rightarrow> Inl ''bad request'', Suc w))\<rparr>"

definition example_state :: "(nat, nat, string) state" where
  "example_state = \<lparr>this = constructor example_actions, outside = 0, sent = []\<rparr>"

text \<open>
  A structure of nodes that is no tree: node \<open>n\<close> has the members \<open>next\<close>, leading
  to node \<open>(n + 1) mod 3\<close>, and \<open>self\<close>, leading back to \<open>n\<close>.
\<close>

definition ring_props :: "nat \<Rightarrow> (string \<times> nat) list" where
  "ring_props n = [(''next'', Suc n mod 3), (''self'', n)]"

section \<open>Properties of the node search\<close>

lemma find_app:
  "List.find P (xs @ ys) = (case List.find P xs of None \<Rightarrow> List.find P ys | Some x \<Rightarrow> Some x)"
  by (induction xs) auto

lemma find_concat_first_some:
  "List.find P (concat (map f xs)) = first_some (map (\<lambda>x. List.find P (f x)) xs)"
proof (induction xs)
  case Nil show ?case by simp
next
  case (Cons a xs)
  then show ?case by (cases "List.find P (f a)") (simp_all add: find_app)
qed

lemma search_examined:
  "search props target d v = List.find (has_key props target) (examined props d v)"
proof (induction d arbitrary: v)
  case 0 show ?case by simp
next
  case (Suc d)
  show ?case using Suc by (simp add: find_concat_first_some comp_def)
qed

lemma examined_within: "u \<in> set (examined props d v) \<Longrightarrow> within props d v u"
proof (induction d arbitrary: v)
  case 0 then show ?case by (auto intro: within.here)
next
  case (Suc d)
  then show ?case by (auto intro: within.intros)
qed

lemma within_examined: "within props d v u \<Longrightarrow> u \<in> set (examined props d v)"
proof (induction rule: within.induct)
  case (here d v) then show ?case by (cases d) auto
next
  case (below k c v d u) then show ?case by force
qed

lemma examined_length_within:
  assumes "\<forall>u. within props d v u \<longrightarrow> length (props u) \<le> b"
  shows "length (examined props d v) \<le> (\<Sum>i\<le>d. b ^ i)"
  using assms
proof (induction d arbitrary: v)
  case 0 show ?case by simp
next
  case (Suc d)
  have root: "length (props v) \<le> b"
    using Suc.prems by (simp add: within.here)
  have child: "length (examined props d c) \<le> (\<Sum>i\<le>d. b ^ i)" if "c \<in> set (map snd (props v))" for c
  proof (rule Suc.IH, intro allI impI)
    fix u assume "within props d c u"
    moreover from that obtain k where "(k, c) \<in> set (props v)" by auto
    ultimately have "within props (Suc d) v u" by (rule within.below [rotated])
    with Suc.prems show "length (props u) \<le> b" by simp
  qed
  have "length (concat (map (\<lambda>c. examined props d c) (map snd (props v))))
        = (\<Sum>c\<leftarrow>map snd (props v). length (examined props d c))"
    by (simp add: length_concat comp_def)
  also have "\<dots> \<le> (\<Sum>c\<leftarrow>map snd (props v). (\<Sum>i\<le>d. b ^ i))"
    by (rule sum_list_mono) (rule child)
  also have "\<dots> = length (props v) * (\<Sum>i\<le>d. b ^ i)"
    by (simp add: sum_list_triv comp_def)
  also have "\<dots> \<le> b * (\<Sum>i\<le>d. b ^ i)"
    using root by (simp add: mult_le_mono1)
  finally have "length (examined props (Suc d) v) \<le> 1 + b * (\<Sum>i\<le>d. b ^ i)" by simp
  also have "1 + b * (\<Sum>i\<le>d. b ^ i) = (\<Sum>i\<le>Suc d. b ^ i)"
    by (simp add: sum_distrib_left sum.atMost_Suc_shift del: sum.atMost_Suc)
  finally show ?case .
qed

lemma fanout_bounded:
  "\<exists>b. \<forall>u. within props d v u \<longrightarrow> length (props u) \<le> b"
proof (intro exI allI impI)
  fix u assume "within props d v u"
  then have "length (props u) \<in> set (map (\<lambda>u. length (props u)) (examined props d v))"
    by (auto dest: within_examined)
  then show "length (props u) \<le> sum_list (map (\<lambda>u. length (props u)) (examined props d v))"
    by (rule member_le_sum_list) simp
qed

text \<open>
  C1. For every structure of nodes, target key name and depth limit, \<open>findNode\<close> either
  returns a node that lies within the depth limit below the payload and has the target key
  among its members, or no node within the depth limit has that key and the outcome is the
  failure behaviour selected by the flag.
\<close>

theorem findNode_key_lookup:
  "(\<exists>node. findNode props on_failure obj key target depth flag = Inr node
           \<and> within props depth obj node \<and> has_key props target node)
   \<or> (findNode props on_failure obj key target depth flag = on_failure flag
       \<and> (\<forall>u. within props depth obj u \<longrightarrow> \<not> has_key props target u))"
proof (cases "search props target depth obj")
  case None
  then have "\<forall>u \<in> set (examined props depth obj). \<not> has_key props target u"
    by (simp add: search_examined find_None_iff)
  then have "\<forall>u. within props depth obj u \<longrightarrow> \<not> has_key props target u"
    by (blast dest: within_examined)
  with None show ?thesis by (simp add: findNode_def)
next
  case (Some node)
  then have "node \<in> set (examined props depth obj)" and "has_key props target node"
    by (auto simp: search_examined find_Some_iff)
  then have "within props depth obj node \<and> has_key props target node"
    by (simp add: examined_within)
  with Some show ?thesis by (simp add: findNode_def)
qed

theorem findNode_key_lookup_witness:
  "findNode ring_props (\<lambda>flag. Inl flag) 0 ''contents'' ''self'' 13 False = Inr 0
   \<and> has_key ring_props ''self'' 0
   \<and> findNode ring_props (\<lambda>flag. Inl flag) 0 ''contents'' ''missing'' 13 True = Inl True
   \<and> \<not> has_key ring_props ''missing'' 2"
proof -
  have a: "findNode ring_props (\<lambda>flag. Inl flag) 0 ''contents'' ''self'' 13 False = Inr 0"
    by code_simp
  have n: "\<not> has_key ring_props ''missing'' v" for v
    by (simp add: has_key_def ring_props_def)
  show ?thesis
    using a n findNode_key_lookup [of ring_props "\<lambda>flag. Inl flag" 0 "''contents''" "''self''" 13 False]
      findNode_key_lookup [of ring_props "\<lambda>flag. Inl flag" 0 "''contents''" "''missing''" 13 True]
    by auto
qed

text \<open>
  C4. The recursion of the node search is bounded by the depth limit. On every structure of
  nodes, cyclic ones included, the nodes within the depth limit below the payload have a
  bounded number of members; the search examines no other nodes, and at most
  \<open>b\<^sup>0 + \<dots> + b\<^bsup>depth\<^esup>\<close> of them (counted as often as they are reached) when none of
  them has more than \<open>b\<close> members; and the outcome of \<open>findNode\<close> is decided by this
  finite list alone.
\<close>

theorem findNode_depth_bounded:
  "(\<exists>bound. \<forall>v. within props depth obj v \<longrightarrow> length (props v) \<le> bound)
   \<and> ((\<forall>v. within props depth obj v \<longrightarrow> length (props v) \<le> b)
        \<longrightarrow> length (examined props depth obj) \<le> (\<Sum>i\<le>depth. b ^ i))
   \<and> set (examined props depth obj) = {v. within props depth obj v}
   \<and> findNode props on_failure obj key target depth flag =
             (case List.find (has_key props target) (examined props depth obj) of
                Some node \<Rightarrow> Inr node
              | None \<Rightarrow> on_failure flag)"
proof (intro conjI impI)
  show "\<exists>bound. \<forall>v. within props depth obj v \<longrightarrow> length (props v) \<le> bound"
    by (rule fanout_bounded)
  show "length (examined props depth obj) \<le> (\<Sum>i\<le>depth. b ^ i)"
    if "\<forall>v. within props depth obj v \<longrightarrow> length (props v) \<le> b"
    using that by (rule examined_length_within)
  show "set (examined props depth obj) = {v. within props depth obj v}"
    by (auto intro: examined_within within_examined)
  show "findNode props on_failure obj key target depth flag =
             (case List.find (has_key props target) (examined props depth obj) of
                Some node \<Rightarrow> Inr node
              | None \<Rightarrow> on_failure flag)"
    by (simp add: findNode_def search_examined)
qed

theorem findNode_depth_bounded_witness:
  "list_all (\<lambda>v. length (json_props v) \<le> 3) (examined json_props 8 accounts_list_page)
   \<and> length (examined json_props 8 accounts_list_page) \<le> (\<Sum>i\<le>8. 3 ^ i)
   \<and> list_all (\<lambda>v. length (ring_props v) \<le> 2) (examined ring_props 13 0)
   \<and> length (examined ring_props 13 0) \<le> (\<Sum>i\<le>13. 2 ^ i)
   \<and> findNode ring_props (\<lambda>flag. Inl flag) 0 ''contents'' ''missing'' 2 True = Inl True"
proof -
  have j: "list_all (\<lambda>v. length (json_props v) \<le> 3) (examined json_props 8 accounts_list_page)"
    by code_simp
  then have hj: "\<forall>v. within json_props 8 accounts_list_page v \<longrightarrow> length (json_props v) \<le> 3"
    by (auto simp: list_all_iff dest: within_examined)
  have r: "length (ring_props v) \<le> 2" for v by (simp add: ring_props_def)
  then have lr: "list_all (\<lambda>v. length (ring_props v) \<le> 2) (examined ring_props 13 0)"
    by (simp add: list_all_iff)
  from r have hr: "\<forall>v. within ring_props 13 0 v \<longrightarrow> length (ring_props v) \<le> 2" by simp
  have e: "examined ring_props 2 0 = [0, 1, 2, 1, 0, 1, 0]"
    by code_simp
  have n: "\<not> has_key ring_props ''missing'' v" for v
    by (simp add: has_key_def ring_props_def)
  note tj = findNode_depth_bounded [of json_props 8 accounts_list_page 3]
  note tr = findNode_depth_bounded [of ring_props 13 0 2]
  note tf = findNode_depth_bounded [of ring_props 2 0 2 "\<lambda>flag. Inl flag" "''contents''" "''missing''" True]
  from tj hj have bj: "length (examined json_props 8 accounts_list_page) \<le> (\<Sum>i\<le>8. 3 ^ i)"
    by blast
  from tr hr have br: "length (examined ring_props 13 0) \<le> (\<Sum>i\<le>13. 2 ^ i)"
    by blast
  from tf have "findNode ring_props (\<lambda>flag. Inl flag) 0 ''contents'' ''missing'' 2 True =
             (case List.find (has_key ring_props ''missing'') (examined ring_props 2 0) of
                Some node \<Rightarrow> Inr node
              | None \<Rightarrow> Inl True)"
    by blast
  then have f: "findNode ring_props (\<lambda>flag. Inl flag) 0 ''contents'' ''missing'' 2 True = Inl True"
    by (simp only: e list.simps List.find.simps n if_False option.simps)
  from j bj lr br f show ?thesis by blast
qed

section \<open>Properties of the methods\<close>

subsection \<open>Outcomes and states of composed runs\<close>

lemma bindE_Inr: "(bindE m f = Inr b) = (\<exists>a. m = Inr a \<and> f a = Inr b)"
  by (cases m) (auto simp: bindE_def)

lemma external_Inr: "(external r = Inr v) = (r = Inr v)"
  by (cases r) (auto simp: external_def)

lemma pureE_eq: "(pureE r s = (x, s')) = (r = x \<and> s' = s)"
  by (auto simp: pureE_def)

lemma thenE_Inr:
  "(thenE m f s = (Inr b, s')) = (\<exists>a s1. m s = (Inr a, s1) \<and> f a s1 = (Inr b, s'))"
  by (cases "m s") (auto simp: thenE_def split: sum.splits)

lemma call_eq:
  "call ep args s =
     (external (fst ((case ep of Channel \<Rightarrow> channel | Browse \<Rightarrow> browse | Account \<Rightarrow> account)
                       (actions (this s)) args (outside s))),
      s\<lparr>outside := snd ((case ep of Channel \<Rightarrow> channel | Browse \<Rightarrow> browse | Account \<Rightarrow> account)
                           (actions (this s)) args (outside s)),
        sent := sent s @ [(ep, args)]\<rparr>)"
  by (simp add: call_def Let_def split: prod.splits)

lemma call_this: "this (snd (call ep args s)) = this s"
  by (simp add: call_eq)

lemma pureE_this: "this (snd (pureE r s)) = this s"
  by (simp add: pureE_def)

lemma thenE_this:
  assumes "\<And>s. this (snd (m s)) = this s" and "\<And>a s. this (snd (f a s)) = this s"
  shows "this (snd (thenE m f s)) = this s"
proof (cases "m s")
  case (Pair r s1)
  then have "this s1 = this s" using assms(1) [of s] by simp
  with Pair assms(2) show ?thesis by (cases r) (simp_all add: thenE_def)
qed

lemma settings_setSetting:
  "settings env member option =
     setSetting env (setting_id_of (Constants_ACCOUNT_SETTINGS env) member) (type_of member) option"
proof (cases member)
  case (notifications n) then show ?thesis by (cases n) simp_all
next
  case (privacy p) then show ?thesis by (cases p) simp_all
qed

lemma setSetting_this: "this (snd (setSetting env setting_id type new_value s)) = this s"
  by (auto simp: setSetting_def intro!: thenE_this call_this pureE_this split: option.splits)

lemma getInfo_this: "this (snd (getInfo env s)) = this s"
  unfolding getInfo_def by (intro thenE_this call_this pureE_this)

lemma getTimeWatched_this: "this (snd (getTimeWatched env s)) = this s"
  unfolding getTimeWatched_def by (intro thenE_this call_this pureE_this)

lemma getAnalytics_this: "this (snd (getAnalytics env s)) = this s"
  unfolding getAnalytics_def by (intro thenE_this call_this pureE_this getInfo_this)

lemma perform_this: "this (perform env operation s) = this s"
  by (cases operation)
     (simp_all add: channel_editName_def channel_editDescription_def channel_getBasicAnalytics_def
        settings_setSetting call_this setSetting_this getInfo_this getTimeWatched_this
        getAnalytics_this)

text \<open>
  C10. No operation of the instance changes a field of the instance: after any sequence of
  operations (\<open>channel.*\<close>, \<open>settings.*\<close>, \<open>getInfo\<close>, \<open>getTimeWatched\<close>,
  \<open>getAnalytics\<close>), from any state and with any imports and dispatcher, the instance
  is what it was, and so is the dispatcher it holds.
\<close>

theorem operations_keep_instance:
  "this (perform_all env operations s) = this s
   \<and> actions (this (perform_all env operations s)) = actions (this s)"
proof (induction operations arbitrary: s)
  case Nil show ?case by simp
next
  case (Cons operation operations)
  show ?case using Cons [of "perform env operation s"] by (simp add: perform_this)
qed

theorem operations_keep_instance_witness:
  "actions (this (perform_all (example_imports findNode_json)
      [GetInfo, Channel_editName ''Ada'', Settings (notifications setSubscriptions) (JStr ''ON''),
       GetTimeWatched, Channel_getBasicAnalytics]
      example_state)) = example_actions"
  using operations_keep_instance [of "example_imports findNode_json"
      "[GetInfo, Channel_editName ''Ada'', Settings (notifications setSubscriptions) (JStr ''ON''),
        GetTimeWatched, Channel_getBasicAnalytics]" example_state]
  by (simp add: example_state_def constructor_def)

text \<open>
  C5. For every string, \<open>channel.editName\<close> makes exactly one call on the dispatcher, the
  channel request \<open>channel/edit_name\<close> with the parameter object \<open>{ new_name }\<close>, and
  \<open>channel.editDescription\<close> exactly one, the channel request
  \<open>channel/edit_description\<close> with \<open>{ new_description }\<close>; each returns what the
  dispatcher answered, and the state changes as that one call changes it.
\<close>

theorem channel_edit_dispatch:
  "channel_editName new_name s =
     (external (fst (channel (actions (this s))
                  [JStr ''channel/edit_name'', JObj [(''new_name'', JStr new_name)]] (outside s))),
      s\<lparr>outside := snd (channel (actions (this s))
                  [JStr ''channel/edit_name'', JObj [(''new_name'', JStr new_name)]] (outside s)),
        sent := sent s @ [(Channel, [JStr ''channel/edit_name'', JObj [(''new_name'', JStr new_name)]])]\<rparr>)
   \<and> channel_editDescription new_description s =
     (external (fst (channel (actions (this s))
                  [JStr ''channel/edit_description'', JObj [(''new_description'', JStr new_description)]]
                  (outside s))),
      s\<lparr>outside := snd (channel (actions (this s))
                  [JStr ''channel/edit_description'', JObj [(''new_description'', JStr new_description)]]
                  (outside s)),
        sent := sent s @ [(Channel, [JStr ''channel/edit_description'',
                                     JObj [(''new_description'', JStr new_description)]])]\<rparr>)"
  by (simp add: channel_editName_def channel_editDescription_def call_eq)

theorem channel_edit_dispatch_witness:
  "channel_editName ''Ada'' example_state =
     (Inr (JObj [(''success'', JBool True)]),
      \<lparr>this = constructor example_actions, outside = 1,
       sent = [(Channel, [JStr ''channel/edit_name'', JObj [(''new_name'', JStr ''Ada'')]])]\<rparr>)"
  using channel_edit_dispatch [of "''Ada''" example_state]
  by (simp add: example_state_def constructor_def example_actions_def external_def)

subsection \<open>getInfo, getTimeWatched and getAnalytics\<close>



lemma getInfo_sent:
  "getInfo env s = (r, s') \<Longrightarrow>
     sent s' = sent s @ [(Account, [JStr ''account/accounts_list'', JObj [(''client'', JStr ''ANDROID'')]])]"
  by (auto simp: getInfo_def thenE_def call_eq pureE_def split: sum.splits)









text \<open>
  C9. \<open>channel.getBasicAnalytics\<close> is \<open>getAnalytics\<close>: same outcome, same state after it,
  same calls. A successful run is a successful \<open>getInfo\<close>, the encoding of its
  \<open>channel_id\<close> by \<open>Proto.encodeChannelAnalyticsParams\<close>, one browse request
  \<open>FEanalytics_screen\<close> with these parameters, and \<open>Analytics\<close> built from the data of
  the response; the dispatcher is called twice, for the accounts list and for the browse.
\<close>

theorem getBasicAnalytics_is_getAnalytics:
  fixes env :: "('n, 'x, 'a) imported" and s s' :: "('w, 'n, 'x) state"
  shows "channel_getBasicAnalytics env = getAnalytics env
   \<and> (getAnalytics env s = (Inr analytics, s') \<longrightarrow>
       (\<exists>info s1 channel_id params response data.
           getInfo env s = (Inr info, s1)
         \<and> (get info ''channel_id'' :: ('n, 'x, 'n json) result) = Inr channel_id
         \<and> Proto_encodeChannelAnalyticsParams env channel_id = Inr params
         \<and> call Browse [JStr ''FEanalytics_screen'',
                         JObj [(''params'', params), (''client'', JStr ''ANDROID'')]] s1
             = (Inr response, s')
         \<and> (get response ''data'' :: ('n, 'x, 'n json) result) = Inr data
         \<and> Analytics_new env data = Inr analytics
         \<and> sent s' = sent s @
             [(Account, [JStr ''account/accounts_list'', JObj [(''client'', JStr ''ANDROID'')]]),
              (Browse, [JStr ''FEanalytics_screen'',
                        JObj [(''params'', params), (''client'', JStr ''ANDROID'')]])]))"
proof (intro conjI impI)
  show "channel_getBasicAnalytics env = getAnalytics env"
    by (rule ext) (simp add: channel_getBasicAnalytics_def)
next
  assume "getAnalytics env s = (Inr analytics, s')"
  then obtain info s1 channel_id params response data where
    i: "getInfo env s = (Inr info, s1)"
    and c: "(get info ''channel_id'' :: ('n, 'x, 'n json) result) = Inr channel_id"
    and p: "Proto_encodeChannelAnalyticsParams env channel_id = Inr params"
    and b: "call Browse [JStr ''FEanalytics_screen'',
                         JObj [(''params'', params), (''client'', JStr ''ANDROID'')]] s1
             = (Inr response, s')"
    and d: "(get response ''data'' :: ('n, 'x, 'n json) result) = Inr data"
    and a: "Analytics_new env data = Inr analytics"
    unfolding getAnalytics_def thenE_Inr pureE_eq bindE_Inr external_Inr by auto
  from b have "sent s' = sent s1 @ [(Browse, [JStr ''FEanalytics_screen'',
                        JObj [(''params'', params), (''client'', JStr ''ANDROID'')]])]"
    by (auto simp: call_eq)
  with getInfo_sent [OF i] have
    "sent s' = sent s @
             [(Account, [JStr ''account/accounts_list'', JObj [(''client'', JStr ''ANDROID'')]]),
              (Browse, [JStr ''FEanalytics_screen'',
                        JObj [(''params'', params), (''client'', JStr ''ANDROID'')]])]"
    by simp
  with i c p b d a show "\<exists>info s1 channel_id params response data.
           getInfo env s = (Inr info, s1)
         \<and> (get info ''channel_id'' :: ('n, 'x, 'n json) result) = Inr channel_id
         \<and> Proto_encodeChannelAnalyticsParams env channel_id = Inr params
         \<and> call Browse [JStr ''FEanalytics_screen'',
                         JObj [(''params'', params), (''client'', JStr ''ANDROID'')]] s1
             = (Inr response, s')
         \<and> (get response ''data'' :: ('n, 'x, 'n json) result) = Inr data
         \<and> Analytics_new env data = Inr analytics
         \<and> sent s' = sent s @
             [(Account, [JStr ''account/accounts_list'', JObj [(''client'', JStr ''ANDROID'')]]),
              (Browse, [JStr ''FEanalytics_screen'',
                        JObj [(''params'', params), (''client'', JStr ''ANDROID'')]])]"
    by blast
qed

theorem getBasicAnalytics_is_getAnalytics_witness:
  "channel_getBasicAnalytics (example_imports findNode_json) example_state
     = getAnalytics (example_imports findNode_json) example_state
   \<and> fst (getAnalytics (example_imports findNode_json) example_state) =
       Inr (JObj [(''args'', JArr [JStr ''FEanalytics_screen'',
                    JObj [(''params'', JArr [JStr ''UC123'']), (''client'', JStr ''ANDROID'')]])])
   \<and> length (sent (snd (getAnalytics (example_imports findNode_json) example_state))) = 2"
proof -
  have e: "fst (getAnalytics (example_imports findNode_json) example_state) =
       Inr (JObj [(''args'', JArr [JStr ''FEanalytics_screen'',
                    JObj [(''params'', JArr [JStr ''UC123'']), (''client'', JStr ''ANDROID'')]])])"
    by code_simp
  then have h: "getAnalytics (example_imports findNode_json) example_state =
       (Inr (JObj [(''args'', JArr [JStr ''FEanalytics_screen'',
                    JObj [(''params'', JArr [JStr ''UC123'']), (''client'', JStr ''ANDROID'')]])]),
        snd (getAnalytics (example_imports findNode_json) example_state))"
    by (metis prod.collapse)
  have z: "sent example_state = []" by (simp add: example_state_def)
  note t = getBasicAnalytics_is_getAnalytics [of "example_imports findNode_json" example_state
      "JObj [(''args'', JArr [JStr ''FEanalytics_screen'',
                    JObj [(''params'', JArr [JStr ''UC123'']), (''client'', JStr ''ANDROID'')]])]"
      "snd (getAnalytics (example_imports findNode_json) example_state)"]
  have a: "channel_getBasicAnalytics (example_imports findNode_json) example_state
     = getAnalytics (example_imports findNode_json) example_state"
    by (rule fun_cong [OF conjunct1 [OF t]])
  from conjunct2 [OF t] h z have b: "length (sent (snd (getAnalytics (example_imports findNode_json) example_state))) = 2"
    by auto
  from a e b show ?thesis by blast
qed

subsection \<open>setSetting and the settings members\<close>


lemma call_sent: "call ep args s = (r, s') \<Longrightarrow> sent s' = sent s @ [(ep, args)]"
  by (auto simp: call_eq)

lemma thenE_cases:
  assumes "thenE m f s = (r, s')"
  shows "(\<exists>e. m s = (Inl e, s') \<and> r = Inl e) \<or> (\<exists>a s1. m s = (Inr a, s1) \<and> f a s1 = (r, s'))"
  using assms by (cases "m s") (auto simp: thenE_def split: sum.splits)

text \<open>What a run of \<open>setSetting\<close> that calls the dispatcher twice has gone through.\<close>

lemma setSetting_two_calls:
  fixes env :: "('n, 'x, 'a) imported" and s s' :: "('w, 'n, 'x) state"
  assumes run: "setSetting env setting_id type new_value s = (outcome, s')"
    and two: "length (sent s') = length (sent s) + 2"
  shows "values_hasOwnProperty (runtime env) new_value
     \<and> (\<exists>response s1 contents option setting_item_id.
          call Browse [JStr type] s = (Inr response, s1)
        \<and> setSetting_contents env type response = Inr contents
        \<and> (bindE (as_array contents) (findE (option_matches (runtime env) setting_id))
             :: ('n, 'x, 'n json) result) = Inr option
        \<and> (path option (setSettingEndpoint @ [''settingItemId'']) :: ('n, 'x, 'n json) result)
             = Inr setting_item_id
        \<and> call Account
              [JStr ''account/set_setting'',
               JObj [(''new_value'',
                        if type = ''SPaccount_privacy''
                        then JBool (\<not> truthy (runtime env) (values_at (runtime env) new_value))
                        else values_at (runtime env) new_value),
                     (''setting_item_id'', setting_item_id)]] s1 = (outcome, s'))"
proof (cases "Utils_throwIfMissing env
             (JObj [(''setting_id'', JStr setting_id), (''type'', JStr type),
                    (''new_value'', new_value)])")
  case (Some x)
  with run two show ?thesis by (simp add: setSetting_def pureE_def)
next
  case None
  show ?thesis
  proof (cases "values_hasOwnProperty (runtime env) new_value")
    case False
    with None run two show ?thesis by (simp add: setSetting_def pureE_def)
  next
    case True
    with None run have 1:
      "thenE (call Browse [JStr type]) (\<lambda>response.
            thenE (pureE (setSetting_contents env type response)) (\<lambda>contents.
            thenE (pureE (bindE (as_array contents)
                           (findE (option_matches (runtime env) setting_id)))) (\<lambda>option.
            thenE (pureE (path option (setSettingEndpoint @ [''settingItemId'']))) (\<lambda>setting_item_id.
            call Account
              [JStr ''account/set_setting'',
               JObj [(''new_value'',
                        if type = ''SPaccount_privacy''
                        then JBool (\<not> truthy (runtime env) (values_at (runtime env) new_value))
                        else values_at (runtime env) new_value),
                     (''setting_item_id'', setting_item_id)]])))) s = (outcome, s')"
      by (simp add: setSetting_def)
    from thenE_cases [OF 1] two obtain response s1 where
      b: "call Browse [JStr type] s = (Inr response, s1)"
      and 2: "thenE (pureE (setSetting_contents env type response)) (\<lambda>contents.
            thenE (pureE (bindE (as_array contents)
                           (findE (option_matches (runtime env) setting_id)))) (\<lambda>option.
            thenE (pureE (path option (setSettingEndpoint @ [''settingItemId'']))) (\<lambda>setting_item_id.
            call Account
              [JStr ''account/set_setting'',
               JObj [(''new_value'',
                        if type = ''SPaccount_privacy''
                        then JBool (\<not> truthy (runtime env) (values_at (runtime env) new_value))
                        else values_at (runtime env) new_value),
                     (''setting_item_id'', setting_item_id)]]))) s1 = (outcome, s')"
      by (auto dest: call_sent)
    from call_sent [OF b] two have one: "length (sent s') = length (sent s1) + 1" by simp
    from thenE_cases [OF 2] one obtain contents where
      c: "setSetting_contents env type response = Inr contents"
      and 3: "thenE (pureE (bindE (as_array contents)
                           (findE (option_matches (runtime env) setting_id)))) (\<lambda>option.
            thenE (pureE (path option (setSettingEndpoint @ [''settingItemId'']))) (\<lambda>setting_item_id.
            call Account
              [JStr ''account/set_setting'',
               JObj [(''new_value'',
                        if type = ''SPaccount_privacy''
                        then JBool (\<not> truthy (runtime env) (values_at (runtime env) new_value))
                        else values_at (runtime env) new_value),
                     (''setting_item_id'', setting_item_id)]])) s1 = (outcome, s')"
      by (auto simp: pureE_def)
    from thenE_cases [OF 3] one obtain option where
      f: "(bindE (as_array contents) (findE (option_matches (runtime env) setting_id))
             :: ('n, 'x, 'n json) result) = Inr option"
      and 4: "thenE (pureE (path option (setSettingEndpoint @ [''settingItemId'']))) (\<lambda>setting_item_id.
            call Account
              [JStr ''account/set_setting'',
               JObj [(''new_value'',
                        if type = ''SPaccount_privacy''
                        then JBool (\<not> truthy (runtime env) (values_at (runtime env) new_value))
                        else values_at (runtime env) new_value),
                     (''setting_item_id'', setting_item_id)]]) s1 = (outcome, s')"
      by (auto simp: pureE_def)
    from thenE_cases [OF 4] one obtain setting_item_id where
      i: "(path option (setSettingEndpoint @ [''settingItemId'']) :: ('n, 'x, 'n json) result)
             = Inr setting_item_id"
      and 5: "call Account
              [JStr ''account/set_setting'',
               JObj [(''new_value'',
                        if type = ''SPaccount_privacy''
                        then JBool (\<not> truthy (runtime env) (values_at (runtime env) new_value))
                        else values_at (runtime env) new_value),
                     (''setting_item_id'', setting_item_id)]] s1 = (outcome, s')"
      by (auto simp: pureE_def)
    from True b c f i 5 show ?thesis by blast
  qed
qed


lemma values_at_accepted:
  assumes "values_hasOwnProperty rt new_value"
  shows "(toString rt new_value = ''ON'' \<or> toString rt new_value = ''OFF'')
       \<and> values_at rt new_value = JBool (toString rt new_value = ''ON'')"
  using assms by (auto simp: values_hasOwnProperty_def values_at_def values_obj_def)


text \<open>The boolean in the second call of \<open>setSetting\<close>.\<close>

lemma setSetting_sent_value:
  fixes env :: "('n, 'x, 'a) imported" and s s' :: "('w, 'n, 'x) state"
  assumes "setSetting env setting_id type new_value s = (outcome, s')"
    and "length (sent s') = length (sent s) + 2"
  shows "(toString (runtime env) new_value = ''ON'' \<or> toString (runtime env) new_value = ''OFF'')
     \<and> (\<exists>setting_item_id.
          last (sent s') =
            (Account,
             [JStr ''account/set_setting'',
              JObj [(''new_value'',
                       JBool (if type = ''SPaccount_privacy''
                              then toString (runtime env) new_value \<noteq> ''ON''
                              else toString (runtime env) new_value = ''ON'')),
                    (''setting_item_id'', setting_item_id)]]))"
proof -
  from setSetting_two_calls [OF assms] obtain s1 setting_item_id where
    v: "values_hasOwnProperty (runtime env) new_value"
    and a: "call Account
              [JStr ''account/set_setting'',
               JObj [(''new_value'',
                        if type = ''SPaccount_privacy''
                        then JBool (\<not> truthy (runtime env) (values_at (runtime env) new_value))
                        else values_at (runtime env) new_value),
                     (''setting_item_id'', setting_item_id)]] s1 = (outcome, s')"
    by blast
  note w = values_at_accepted [OF v]
  from call_sent [OF a] w have
    "last (sent s') =
            (Account,
             [JStr ''account/set_setting'',
              JObj [(''new_value'',
                       JBool (if type = ''SPaccount_privacy''
                              then toString (runtime env) new_value \<noteq> ''ON''
                              else toString (runtime env) new_value = ''ON'')),
                    (''setting_item_id'', setting_item_id)]])"
    by simp
  with w show ?thesis by blast
qed


lemma setSetting_resolves:
  fixes env :: "('n, 'x, 'a) imported" and s s' :: "('w, 'n, 'x) state"
  assumes run: "setSetting env setting_id type new_value s = (Inr r, s')"
  shows "length (sent s') = length (sent s) + 2"
proof (cases "Utils_throwIfMissing env
             (JObj [(''setting_id'', JStr setting_id), (''type'', JStr type),
                    (''new_value'', new_value)])")
  case (Some x)
  with run show ?thesis by (simp add: setSetting_def pureE_def)
next
  case None
  show ?thesis
  proof (cases "values_hasOwnProperty (runtime env) new_value")
    case False
    with None run show ?thesis by (simp add: setSetting_def pureE_def)
  next
    case True
    with None run obtain response s1 args where
      b: "call Browse [JStr type] s = (Inr response, s1)"
      and a: "call Account args s1 = (Inr r, s')"
      by (auto simp: setSetting_def thenE_Inr pureE_eq)
    from call_sent [OF b] call_sent [OF a] show ?thesis by simp
  qed
qed

lemma setSetting_reaches:
  fixes env :: "('n, 'x, 'a) imported" and s s1 :: "('w, 'n, 'x) state"
  assumes "Utils_throwIfMissing env
             (JObj [(''setting_id'', JStr setting_id), (''type'', JStr type),
                    (''new_value'', new_value)]) = None"
    and "values_hasOwnProperty (runtime env) new_value"
    and "call Browse [JStr type] s = (Inr response, s1)"
    and "setSetting_contents env type response = Inr (JArr options)"
    and "(findE (option_matches (runtime env) setting_id) options :: ('n, 'x, 'n json) result)
           = Inr chosen"
    and "(path chosen (setSettingEndpoint @ [''settingItemId'']) :: ('n, 'x, 'n json) result)
           = Inr setting_item_id"
  shows "setSetting env setting_id type new_value s =
           call Account
              [JStr ''account/set_setting'',
               JObj [(''new_value'',
                        if type = ''SPaccount_privacy''
                        then JBool (\<not> truthy (runtime env) (values_at (runtime env) new_value))
                        else values_at (runtime env) new_value),
                     (''setting_item_id'', setting_item_id)]] s1"
  using assms by (simp add: setSetting_def thenE_def pureE_def bindE_def)

lemma accepted_iff:
  "values_hasOwnProperty rt new_value
     = (toString rt new_value = ''ON'' \<or> toString rt new_value = ''OFF'')"
  by (auto simp: values_hasOwnProperty_def values_obj_def)




text \<open>
  C8. A run of \<open>setSetting\<close> that resolves, or that calls the dispatcher twice, has a
  \<open>new_value\<close> that names \<open>ON\<close> or \<open>OFF\<close>, and the \<open>new_value\<close> of its
  \<open>account/set_setting\<close> request is a boolean: for the settings type
  \<open>SPaccount_privacy\<close> the negation of the mapping (\<open>ON\<close> sends false, \<open>OFF\<close> sends
  true), for any other type, \<open>SPaccount_notifications\<close> among them, the mapping itself
  (\<open>ON\<close> sends true, \<open>OFF\<close> sends false). Conversely, when \<open>throwIfMissing\<close>
  accepts the arguments, \<open>new_value\<close> names \<open>ON\<close> or \<open>OFF\<close>, the page is fetched
  and an option is found with a readable \<open>settingItemId\<close>, the run is that request with
  that boolean.
\<close>

theorem setSetting_new_value:
  fixes env :: "('n, 'x, 'a) imported" and s s' s1 :: "('w, 'n, 'x) state"
  shows
  "(setSetting env setting_id type new_value s = (outcome, s')
      \<and> ((\<exists>r. outcome = Inr r) \<or> length (sent s') = length (sent s) + 2)
    \<longrightarrow> (toString (runtime env) new_value = ''ON'' \<or> toString (runtime env) new_value = ''OFF'')
        \<and> (\<exists>setting_item_id.
             last (sent s') =
               (Account,
                [JStr ''account/set_setting'',
                 JObj [(''new_value'',
                          JBool (if type = ''SPaccount_privacy''
                                 then toString (runtime env) new_value \<noteq> ''ON''
                                 else toString (runtime env) new_value = ''ON'')),
                       (''setting_item_id'', setting_item_id)]])))
   \<and> (Utils_throwIfMissing env
          (JObj [(''setting_id'', JStr setting_id), (''type'', JStr type),
                 (''new_value'', new_value)]) = None
      \<and> (toString (runtime env) new_value = ''ON'' \<or> toString (runtime env) new_value = ''OFF'')
      \<and> call Browse [JStr type] s = (Inr page, s1)
      \<and> setSetting_contents env type page = Inr (JArr options)
      \<and> (findE (option_matches (runtime env) setting_id) options :: ('n, 'x, 'n json) result)
           = Inr chosen
      \<and> (path chosen [''settingsSwitchRenderer'', ''enableServiceEndpoint'', ''setSettingEndpoint'',
                       ''settingItemId''] :: ('n, 'x, 'n json) result) = Inr item
    \<longrightarrow> setSetting env setting_id type new_value s =
          call Account
            [JStr ''account/set_setting'',
             JObj [(''new_value'',
                      JBool (if type = ''SPaccount_privacy''
                             then toString (runtime env) new_value \<noteq> ''ON''
                             else toString (runtime env) new_value = ''ON'')),
                   (''setting_item_id'', item)]] s1)"
proof (rule conjI; rule impI)
  assume h: "setSetting env setting_id type new_value s = (outcome, s')
      \<and> ((\<exists>r. outcome = Inr r) \<or> length (sent s') = length (sent s) + 2)"
  then have run: "setSetting env setting_id type new_value s = (outcome, s')" by simp
  from h have two: "length (sent s') = length (sent s) + 2"
    by (auto dest: setSetting_resolves)
  from setSetting_sent_value [OF run two]
  show "(toString (runtime env) new_value = ''ON'' \<or> toString (runtime env) new_value = ''OFF'')
        \<and> (\<exists>setting_item_id.
             last (sent s') =
               (Account,
                [JStr ''account/set_setting'',
                 JObj [(''new_value'',
                          JBool (if type = ''SPaccount_privacy''
                                 then toString (runtime env) new_value \<noteq> ''ON''
                                 else toString (runtime env) new_value = ''ON'')),
                       (''setting_item_id'', setting_item_id)]]))" .
next
  assume h: "Utils_throwIfMissing env
          (JObj [(''setting_id'', JStr setting_id), (''type'', JStr type),
                 (''new_value'', new_value)]) = None
      \<and> (toString (runtime env) new_value = ''ON'' \<or> toString (runtime env) new_value = ''OFF'')
      \<and> call Browse [JStr type] s = (Inr page, s1)
      \<and> setSetting_contents env type page = Inr (JArr options)
      \<and> (findE (option_matches (runtime env) setting_id) options :: ('n, 'x, 'n json) result)
           = Inr chosen
      \<and> (path chosen [''settingsSwitchRenderer'', ''enableServiceEndpoint'', ''setSettingEndpoint'',
                       ''settingItemId''] :: ('n, 'x, 'n json) result) = Inr item"
  then have t: "Utils_throwIfMissing env
          (JObj [(''setting_id'', JStr setting_id), (''type'', JStr type),
                 (''new_value'', new_value)]) = None"
    and v: "values_hasOwnProperty (runtime env) new_value"
    and b: "call Browse [JStr type] s = (Inr page, s1)"
    and c: "setSetting_contents env type page = Inr (JArr options)"
    and f: "(findE (option_matches (runtime env) setting_id) options :: ('n, 'x, 'n json) result)
           = Inr chosen"
    by (simp_all add: accepted_iff)
  from h have i: "(path chosen (setSettingEndpoint @ [''settingItemId'']) :: ('n, 'x, 'n json) result)
           = Inr item"
    by (simp add: setSettingEndpoint_def)
  have w: "values_at (runtime env) new_value = JBool (toString (runtime env) new_value = ''ON'')"
    using values_at_accepted [OF v] by simp
  have e: "(if type = ''SPaccount_privacy''
            then JBool (\<not> truthy (runtime env) (values_at (runtime env) new_value))
            else values_at (runtime env) new_value)
         = JBool (if type = ''SPaccount_privacy''
                  then toString (runtime env) new_value \<noteq> ''ON''
                  else toString (runtime env) new_value = ''ON'')"
    by (simp add: w)
  show "setSetting env setting_id type new_value s =
          call Account
            [JStr ''account/set_setting'',
             JObj [(''new_value'',
                      JBool (if type = ''SPaccount_privacy''
                             then toString (runtime env) new_value \<noteq> ''ON''
                             else toString (runtime env) new_value = ''ON'')),
                   (''setting_item_id'', item)]] s1"
    using setSetting_reaches [OF t v b c f i] unfolding e .
qed

theorem setSetting_new_value_witness:
  "last (sent (snd (setSetting (example_imports findNode_member) ''PRIVACY_DISCOVERABLE_SUBSCRIPTIONS'' ''SPaccount_privacy'' (JStr ''ON'') example_state)))
     = (Account, [JStr ''account/set_setting'',
                  JObj [(''new_value'', JBool False), (''setting_item_id'', JStr ''501'')]])
   \<and> last (sent (snd (setSetting (example_imports findNode_member) ''PRIVACY_DISCOVERABLE_SUBSCRIPTIONS'' ''SPaccount_privacy'' (JStr ''OFF'') example_state)))
     = (Account, [JStr ''account/set_setting'',
                  JObj [(''new_value'', JBool True), (''setting_item_id'', JStr ''501'')]])
   \<and> last (sent (snd (setSetting (example_imports findNode_member) ''NOTIFICATION_SUBSCRIPTION_NOTIFICATIONS'' ''SPaccount_notifications'' (JStr ''ON'') example_state)))
     = (Account, [JStr ''account/set_setting'',
                  JObj [(''new_value'', JBool True), (''setting_item_id'', JStr ''407'')]])
   \<and> last (sent (snd (setSetting (example_imports findNode_member) ''NOTIFICATION_SUBSCRIPTION_NOTIFICATIONS'' ''SPaccount_notifications'' (JStr ''OFF'') example_state)))
     = (Account, [JStr ''account/set_setting'',
                  JObj [(''new_value'', JBool False), (''setting_item_id'', JStr ''407'')]])
   \<and> setSetting (example_imports findNode_member) ''PRIVACY_DISCOVERABLE_SUBSCRIPTIONS'' ''SPaccount_privacy'' (JStr ''OFF'') example_state =
       call Account [JStr ''account/set_setting'',
                     JObj [(''new_value'', JBool True), (''setting_item_id'', JStr ''501'')]]
         (example_state\<lparr>outside := 1, sent := [(Browse, [JStr ''SPaccount_privacy''])]\<rparr>)"
proof -
  have z: "sent example_state = []" by (simp add: example_state_def)
  have sends: "\<exists>setting_item_id.
             last (sent (snd (setSetting (example_imports findNode_member) setting_id type new_value example_state))) =
               (Account,
                [JStr ''account/set_setting'',
                 JObj [(''new_value'',
                          JBool (if type = ''SPaccount_privacy''
                                 then toString (runtime (example_imports findNode_member)) new_value \<noteq> ''ON''
                                 else toString (runtime (example_imports findNode_member)) new_value = ''ON'')),
                       (''setting_item_id'', setting_item_id)]])"
    if "fst (setSetting (example_imports findNode_member) setting_id type new_value example_state) = Inr r"
    for setting_id type new_value r
  proof -
    let ?s' = "snd (setSetting (example_imports findNode_member) setting_id type new_value example_state)"
    from that have h: "setSetting (example_imports findNode_member) setting_id type new_value example_state
        = (Inr r, ?s')"
      by (metis prod.collapse)
    have o: "(\<exists>r'. (Inr r :: (nat, string, nat json) result) = Inr r')
               \<or> length (sent ?s') = length (sent example_state) + 2"
      by blast
    note c1 = conjunct1 [OF setSetting_new_value
        [where env = "example_imports findNode_member" and setting_id = setting_id and type = type
           and new_value = new_value and s = example_state and outcome = "Inr r" and s' = "?s'"]]
    from c1 [THEN mp, OF conjI [OF h o]] show ?thesis by (rule conjunct2)
  qed
  have e0: "fst (setSetting (example_imports findNode_member) ''PRIVACY_DISCOVERABLE_SUBSCRIPTIONS'' ''SPaccount_privacy'' (JStr ''ON'') example_state) = Inr (JObj [(''success'', JBool True)])"
    by code_simp
  have l0: "sent (snd (setSetting (example_imports findNode_member) ''PRIVACY_DISCOVERABLE_SUBSCRIPTIONS'' ''SPaccount_privacy'' (JStr ''ON'') example_state)) =
         [(Browse, [JStr ''SPaccount_privacy'']),
          (Account, [JStr ''account/set_setting'',
                  JObj [(''new_value'', JBool False), (''setting_item_id'', JStr ''501'')]])]"
    by code_simp
  from sends [OF e0] l0 have a0: "last (sent (snd (setSetting (example_imports findNode_member) ''PRIVACY_DISCOVERABLE_SUBSCRIPTIONS'' ''SPaccount_privacy'' (JStr ''ON'') example_state)))
     = (Account, [JStr ''account/set_setting'',
                  JObj [(''new_value'', JBool False), (''setting_item_id'', JStr ''501'')]])"
    by simp
  have e1: "fst (setSetting (example_imports findNode_member) ''PRIVACY_DISCOVERABLE_SUBSCRIPTIONS'' ''SPaccount_privacy'' (JStr ''OFF'') example_state) = Inr (JObj [(''success'', JBool True)])"
    by code_simp
  have l1: "sent (snd (setSetting (example_imports findNode_member) ''PRIVACY_DISCOVERABLE_SUBSCRIPTIONS'' ''SPaccount_privacy'' (JStr ''OFF'') example_state)) =
         [(Browse, [JStr ''SPaccount_privacy'']),
          (Account, [JStr ''account/set_setting'',
                  JObj [(''new_value'', JBool True), (''setting_item_id'', JStr ''501'')]])]"
    by code_simp
  from sends [OF e1] l1 have a1: "last (sent (snd (setSetting (example_imports findNode_member) ''PRIVACY_DISCOVERABLE_SUBSCRIPTIONS'' ''SPaccount_privacy'' (JStr ''OFF'') example_state)))
     = (Account, [JStr ''account/set_setting'',
                  JObj [(''new_value'', JBool True), (''setting_item_id'', JStr ''501'')]])"
    by simp
  have e2: "fst (setSetting (example_imports findNode_member) ''NOTIFICATION_SUBSCRIPTION_NOTIFICATIONS'' ''SPaccount_notifications'' (JStr ''ON'') example_state) = Inr (JObj [(''success'', JBool True)])"
    by code_simp
  have l2: "sent (snd (setSetting (example_imports findNode_member) ''NOTIFICATION_SUBSCRIPTION_NOTIFICATIONS'' ''SPaccount_notifications'' (JStr ''ON'') example_state)) =
         [(Browse, [JStr ''SPaccount_notifications'']),
          (Account, [JStr ''account/set_setting'',
                  JObj [(''new_value'', JBool True), (''setting_item_id'', JStr ''407'')]])]"
    by code_simp
  from sends [OF e2] l2 have a2: "last (sent (snd (setSetting (example_imports findNode_member) ''NOTIFICATION_SUBSCRIPTION_NOTIFICATIONS'' ''SPaccount_notifications'' (JStr ''ON'') example_state)))
     = (Account, [JStr ''account/set_setting'',
                  JObj [(''new_value'', JBool True), (''setting_item_id'', JStr ''407'')]])"
    by simp
  have e3: "fst (setSetting (example_imports findNode_member) ''NOTIFICATION_SUBSCRIPTION_NOTIFICATIONS'' ''SPaccount_notifications'' (JStr ''OFF'') example_state) = Inr (JObj [(''success'', JBool True)])"
    by code_simp
  have l3: "sent (snd (setSetting (example_imports findNode_member) ''NOTIFICATION_SUBSCRIPTION_NOTIFICATIONS'' ''SPaccount_notifications'' (JStr ''OFF'') example_state)) =
         [(Browse, [JStr ''SPaccount_notifications'']),
          (Account, [JStr ''account/set_setting'',
                  JObj [(''new_value'', JBool False), (''setting_item_id'', JStr ''407'')]])]"
    by code_simp
  from sends [OF e3] l3 have a3: "last (sent (snd (setSetting (example_imports findNode_member) ''NOTIFICATION_SUBSCRIPTION_NOTIFICATIONS'' ''SPaccount_notifications'' (JStr ''OFF'') example_state)))
     = (Account, [JStr ''account/set_setting'',
                  JObj [(''new_value'', JBool False), (''setting_item_id'', JStr ''407'')]])"
    by simp
  have t: "Utils_throwIfMissing (example_imports findNode_member)
          (JObj [(''setting_id'', JStr ''PRIVACY_DISCOVERABLE_SUBSCRIPTIONS''),
                 (''type'', JStr ''SPaccount_privacy''), (''new_value'', JStr ''OFF'')]) = None"
    by (simp add: example_imports_def throwIfMissing_falsy_def)
  have v: "toString (runtime (example_imports findNode_member)) (JStr ''OFF'') = ''ON''
           \<or> toString (runtime (example_imports findNode_member)) (JStr ''OFF'') = ''OFF''"
    by simp
  have b: "call Browse [JStr ''SPaccount_privacy''] example_state = (Inr settings_page, example_state\<lparr>outside := 1, sent := [(Browse, [JStr ''SPaccount_privacy''])]\<rparr>)"
    by (simp add: call_eq example_state_def constructor_def example_actions_def external_def)
  obtain options :: "nat json list" where
    c: "setSetting_contents (example_imports findNode_member) ''SPaccount_privacy'' settings_page
          = Inr (JArr options)"
    and f: "(findE (option_matches (runtime (example_imports findNode_member))
                     ''PRIVACY_DISCOVERABLE_SUBSCRIPTIONS'') options :: (nat, string, nat json) result)
          = Inr (switch_option ''PRIVACY_DISCOVERABLE_SUBSCRIPTIONS'' ''501'')"
  proof
    show "setSetting_contents (example_imports findNode_member) ''SPaccount_privacy'' settings_page
          = Inr (JArr [switch_option ''NOTIFICATION_RECOMMENDATION_WEB_CONTROL'' ''402'',
                 switch_option ''NOTIFICATION_SUBSCRIPTION_NOTIFICATIONS'' ''407'',
                 switch_option ''PRIVACY_DISCOVERABLE_SUBSCRIPTIONS'' ''501'',
                 switch_option ''NOTIFICATION_SUBSCRIPTION_NOTIFICATIONS'' ''999'',
                 switch_option ''NOTIFICATION_COMMENT_WEB_CONTROL'' ''403'',
                 switch_option ''NOTIFICATION_COMMENT_REPLY_OTHER_WEB_CONTROL'' ''404'',
                 switch_option ''NOTIFICATION_USER_MENTION_WEB_CONTROL'' ''405'',
                 switch_option ''NOTIFICATION_RETUBING_WEB_CONTROL'' ''406'',
                 switch_option ''PRIVACY_DISCOVERABLE_SAVED_PLAYLISTS'' ''502''])"
      by code_simp
    show "(findE (option_matches (runtime (example_imports findNode_member))
                     ''PRIVACY_DISCOVERABLE_SUBSCRIPTIONS'')
                [switch_option ''NOTIFICATION_RECOMMENDATION_WEB_CONTROL'' ''402'',
                 switch_option ''NOTIFICATION_SUBSCRIPTION_NOTIFICATIONS'' ''407'',
                 switch_option ''PRIVACY_DISCOVERABLE_SUBSCRIPTIONS'' ''501'',
                 switch_option ''NOTIFICATION_SUBSCRIPTION_NOTIFICATIONS'' ''999'',
                 switch_option ''NOTIFICATION_COMMENT_WEB_CONTROL'' ''403'',
                 switch_option ''NOTIFICATION_COMMENT_REPLY_OTHER_WEB_CONTROL'' ''404'',
                 switch_option ''NOTIFICATION_USER_MENTION_WEB_CONTROL'' ''405'',
                 switch_option ''NOTIFICATION_RETUBING_WEB_CONTROL'' ''406'',
                 switch_option ''PRIVACY_DISCOVERABLE_SAVED_PLAYLISTS'' ''502'']
             :: (nat, string, nat json) result)
          = Inr (switch_option ''PRIVACY_DISCOVERABLE_SUBSCRIPTIONS'' ''501'')"
      by code_simp
  qed
  have i: "(path (switch_option ''PRIVACY_DISCOVERABLE_SUBSCRIPTIONS'' ''501'')
              [''settingsSwitchRenderer'', ''enableServiceEndpoint'', ''setSettingEndpoint'',
               ''settingItemId''] :: (nat, string, nat json) result) = Inr (JStr ''501'')"
    by code_simp
  note c2 = conjunct2 [OF setSetting_new_value
      [where env = "example_imports findNode_member"
         and setting_id = "''PRIVACY_DISCOVERABLE_SUBSCRIPTIONS''" and type = "''SPaccount_privacy''"
         and new_value = "JStr ''OFF''" and s = example_state and page = settings_page
         and ?s1.0 = "example_state\<lparr>outside := 1, sent := [(Browse, [JStr ''SPaccount_privacy''])]\<rparr>"
         and options = options
         and chosen = "switch_option ''PRIVACY_DISCOVERABLE_SUBSCRIPTIONS'' ''501''"
         and item = "JStr ''501''"]]
  have "setSetting (example_imports findNode_member) ''PRIVACY_DISCOVERABLE_SUBSCRIPTIONS''
          ''SPaccount_privacy'' (JStr ''OFF'') example_state =
          call Account
            [JStr ''account/set_setting'',
             JObj [(''new_value'',
                      JBool (if ''SPaccount_privacy'' = ''SPaccount_privacy''
                             then toString (runtime (example_imports findNode_member)) (JStr ''OFF'') \<noteq> ''ON''
                             else toString (runtime (example_imports findNode_member)) (JStr ''OFF'') = ''ON'')),
                   (''setting_item_id'', JStr ''501'')]] (example_state\<lparr>outside := 1, sent := [(Browse, [JStr ''SPaccount_privacy''])]\<rparr>)"
    by (rule c2 [THEN mp]) (intro conjI t v b c f i)
  then have s: "setSetting (example_imports findNode_member) ''PRIVACY_DISCOVERABLE_SUBSCRIPTIONS'' ''SPaccount_privacy'' (JStr ''OFF'') example_state =
       call Account [JStr ''account/set_setting'',
                     JObj [(''new_value'', JBool True), (''setting_item_id'', JStr ''501'')]]
         (example_state\<lparr>outside := 1, sent := [(Browse, [JStr ''SPaccount_privacy''])]\<rparr>)"
    by simp
  from a0 a1 a2 a3 s show ?thesis by (intro conjI)
qed

text \<open>Which exceptions the parts of \<open>setSetting\<close> after the validity test can raise.\<close>

lemma get_Inl: "get v k = Inl e \<Longrightarrow> e = TypeError None"
  by (cases v) auto

lemma path_Inl: "path v ks = Inl e \<Longrightarrow> e = TypeError None"
  by (induction ks arbitrary: v) (auto simp: bindE_def split: sum.splits dest: get_Inl)

lemma as_array_Inl: "as_array v = Inl e \<Longrightarrow> e = TypeError None"
  by (cases v) auto

lemma external_Inl: "external r = Inl e \<Longrightarrow> \<exists>x. e = External x"
  by (cases r) (auto simp: external_def)

lemma option_matches_Inl: "option_matches rt setting_id option = Inl e \<Longrightarrow> e = TypeError None"
  by (auto simp: option_matches_def bindE_def split: sum.splits dest: path_Inl)

lemma findE_Inl:
  "findE (option_matches rt setting_id) xs = Inl e \<Longrightarrow> e = TypeError None"
  by (induction xs) (auto simp: bindE_def split: sum.splits if_splits dest: option_matches_Inl)

lemma setSetting_contents_Inl:
  "setSetting_contents env type response = Inl e \<Longrightarrow> e \<noteq> InnertubeError msg info"
  by (auto simp: setSetting_contents_def bindE_def split: sum.splits if_splits
           dest: get_Inl external_Inl)

lemma call_Inl: "call ep args s = (Inl e, s') \<Longrightarrow> \<exists>x. e = External x"
  by (auto simp: call_eq dest: external_Inl)

lemma setSetting_accepted:
  assumes "Utils_throwIfMissing env
             (JObj [(''setting_id'', JStr setting_id), (''type'', JStr type),
                    (''new_value'', new_value)]) = None"
    and "values_hasOwnProperty (runtime env) new_value"
  shows "fst (setSetting env setting_id type new_value s) \<noteq> Inl (InnertubeError msg info)"
proof
  assume e: "fst (setSetting env setting_id type new_value s) = Inl (InnertubeError msg info)"
  obtain s' where "setSetting env setting_id type new_value s = (Inl (InnertubeError msg info), s')"
    using e by (metis prod.collapse)
  with assms have 1:
      "thenE (call Browse [JStr type]) (\<lambda>response.
            thenE (pureE (setSetting_contents env type response)) (\<lambda>contents.
            thenE (pureE (bindE (as_array contents)
                           (findE (option_matches (runtime env) setting_id)))) (\<lambda>option.
            thenE (pureE (path option (setSettingEndpoint @ [''settingItemId'']))) (\<lambda>setting_item_id.
            call Account
              [JStr ''account/set_setting'',
               JObj [(''new_value'',
                        if type = ''SPaccount_privacy''
                        then JBool (\<not> truthy (runtime env) (values_at (runtime env) new_value))
                        else values_at (runtime env) new_value),
                     (''setting_item_id'', setting_item_id)]])))) s
        = (Inl (InnertubeError msg info), s')"
    by (simp add: setSetting_def)
  from thenE_cases [OF 1] obtain response s1 where
    2: "thenE (pureE (setSetting_contents env type response)) (\<lambda>contents.
            thenE (pureE (bindE (as_array contents)
                           (findE (option_matches (runtime env) setting_id)))) (\<lambda>option.
            thenE (pureE (path option (setSettingEndpoint @ [''settingItemId'']))) (\<lambda>setting_item_id.
            call Account
              [JStr ''account/set_setting'',
               JObj [(''new_value'',
                        if type = ''SPaccount_privacy''
                        then JBool (\<not> truthy (runtime env) (values_at (runtime env) new_value))
                        else values_at (runtime env) new_value),
                     (''setting_item_id'', setting_item_id)]]))) s1
        = (Inl (InnertubeError msg info), s')"
    by (auto dest: call_Inl)
  from thenE_cases [OF 2] obtain contents where
    3: "thenE (pureE (bindE (as_array contents)
                           (findE (option_matches (runtime env) setting_id)))) (\<lambda>option.
            thenE (pureE (path option (setSettingEndpoint @ [''settingItemId'']))) (\<lambda>setting_item_id.
            call Account
              [JStr ''account/set_setting'',
               JObj [(''new_value'',
                        if type = ''SPaccount_privacy''
                        then JBool (\<not> truthy (runtime env) (values_at (runtime env) new_value))
                        else values_at (runtime env) new_value),
                     (''setting_item_id'', setting_item_id)]])) s1
        = (Inl (InnertubeError msg info), s')"
    by (auto simp: pureE_def dest: setSetting_contents_Inl)
  from thenE_cases [OF 3] obtain option where
    4: "thenE (pureE (path option (setSettingEndpoint @ [''settingItemId'']))) (\<lambda>setting_item_id.
            call Account
              [JStr ''account/set_setting'',
               JObj [(''new_value'',
                        if type = ''SPaccount_privacy''
                        then JBool (\<not> truthy (runtime env) (values_at (runtime env) new_value))
                        else values_at (runtime env) new_value),
                     (''setting_item_id'', setting_item_id)]]) s1
        = (Inl (InnertubeError msg info), s')"
    by (auto simp: pureE_def bindE_def split: sum.splits dest: as_array_Inl findE_Inl)
  from thenE_cases [OF 4] show False
    by (auto simp: pureE_def dest: path_Inl call_Inl)
qed

lemma accepted_string_or_boolean:
  "values_hasOwnProperty rt (JStr t) = (t = ''ON'' \<or> t = ''OFF'')"
  "values_hasOwnProperty rt (JBool b) = False"
  by (auto simp: values_hasOwnProperty_def values_obj_def)

text \<open>
  C3, as amended. Let \<open>throwIfMissing\<close> accept the arguments and let \<open>new_value\<close> be a
  string or a boolean. Then \<open>setSetting\<close> raises the InnertubeError "Invalid option" if
  and only if \<open>new_value\<close> is neither the string \<open>ON\<close> nor the string \<open>OFF\<close>; it
  does so before any call on the dispatcher, leaving the state as it was; and every
  settings member, called with a boolean, ends so.
\<close>

theorem setSetting_invalid_option:
  fixes env :: "('n, 'x, 'a) imported" and s :: "('w, 'n, 'x) state"
  assumes "Utils_throwIfMissing env
             (JObj [(''setting_id'', JStr setting_id), (''type'', JStr type),
                    (''new_value'', new_value)]) = None"
    and "(\<exists>t. new_value = JStr t) \<or> (\<exists>b. new_value = JBool b)"
  shows "((\<exists>info. fst (setSetting env setting_id type new_value s)
                    = Inl (InnertubeError ''Invalid option'' info))
          \<longleftrightarrow> (new_value \<noteq> JStr ''ON'' \<and> new_value \<noteq> JStr ''OFF''))
     \<and> (new_value \<noteq> JStr ''ON'' \<and> new_value \<noteq> JStr ''OFF'' \<longrightarrow>
          setSetting env setting_id type new_value s =
            (Inl (InnertubeError ''Invalid option''
                   (JObj [(''option'', new_value),
                          (''available_options'', JArr [JStr ''ON'', JStr ''OFF''])])), s))
     \<and> (setting_id = setting_id_of (Constants_ACCOUNT_SETTINGS env) member \<and> type = type_of member
          \<and> (\<exists>b. new_value = JBool b) \<longrightarrow>
          settings env member new_value s =
            (Inl (InnertubeError ''Invalid option''
                   (JObj [(''option'', new_value),
                          (''available_options'', JArr [JStr ''ON'', JStr ''OFF''])])), s))"
proof -
  have v: "values_hasOwnProperty (runtime env) new_value
             \<longleftrightarrow> \<not> (new_value \<noteq> JStr ''ON'' \<and> new_value \<noteq> JStr ''OFF'')"
    using assms(2) by (auto simp: accepted_string_or_boolean)
  have r: "setSetting env setting_id type new_value s =
            (Inl (InnertubeError ''Invalid option''
                   (JObj [(''option'', new_value),
                          (''available_options'', JArr [JStr ''ON'', JStr ''OFF''])])), s)"
    if "new_value \<noteq> JStr ''ON'' \<and> new_value \<noteq> JStr ''OFF''"
    using that v assms(1) by (simp add: setSetting_def pureE_def values_obj_def)
  have a: "\<not> (\<exists>info. fst (setSetting env setting_id type new_value s)
                    = Inl (InnertubeError ''Invalid option'' info))"
    if "\<not> (new_value \<noteq> JStr ''ON'' \<and> new_value \<noteq> JStr ''OFF'')"
    using that v setSetting_accepted [OF assms(1)] by blast
  have b: "new_value \<noteq> JStr ''ON'' \<and> new_value \<noteq> JStr ''OFF''" if "\<exists>b. new_value = JBool b"
    using that by auto
  from r a have 1: "(\<exists>info. fst (setSetting env setting_id type new_value s)
                    = Inl (InnertubeError ''Invalid option'' info))
          \<longleftrightarrow> (new_value \<noteq> JStr ''ON'' \<and> new_value \<noteq> JStr ''OFF'')"
    by (metis fst_conv)
  from r b have 3: "setting_id = setting_id_of (Constants_ACCOUNT_SETTINGS env) member \<and> type = type_of member
          \<and> (\<exists>b. new_value = JBool b) \<longrightarrow>
          settings env member new_value s =
            (Inl (InnertubeError ''Invalid option''
                   (JObj [(''option'', new_value),
                          (''available_options'', JArr [JStr ''ON'', JStr ''OFF''])])), s)"
    by (auto simp: settings_setSetting)
  from 1 r 3 show ?thesis by blast
qed

theorem setSetting_invalid_option_witness:
  "settings (example_imports findNode_member) (notifications setSubscriptions) (JBool True) example_state
     = (Inl (InnertubeError ''Invalid option''
              (JObj [(''option'', JBool True),
                     (''available_options'', JArr [JStr ''ON'', JStr ''OFF''])])), example_state)"
proof -
  have t: "Utils_throwIfMissing (example_imports findNode_member)
             (JObj [(''setting_id'', JStr ''NOTIFICATION_SUBSCRIPTION_NOTIFICATIONS''),
                    (''type'', JStr ''SPaccount_notifications''),
                    (''new_value'', JBool True)]) = None"
    by (simp add: example_imports_def throwIfMissing_falsy_def)
  have b: "(\<exists>t. JBool True = JStr t) \<or> (\<exists>b. JBool True = JBool b)" by blast
  have i: "''NOTIFICATION_SUBSCRIPTION_NOTIFICATIONS''
             = setting_id_of (Constants_ACCOUNT_SETTINGS (example_imports findNode_member))
                 (notifications setSubscriptions)"
    by (simp add: example_imports_def example_ACCOUNT_SETTINGS_def)
  from setSetting_invalid_option [OF t b, of example_state "notifications setSubscriptions"] i
  show ?thesis by simp
qed

text \<open>
  C3, as stated, fails where \<open>throwIfMissing\<close> raises first: with an instance that
  rejects falsy values, \<open>settings.notifications.setSubscriptions(false)\<close> ends with the
  exception of \<open>throwIfMissing\<close>, although \<open>false\<close> is neither \<open>ON\<close> nor \<open>OFF\<close>.
\<close>

theorem setSetting_invalid_option_counterexample:
  "fst (settings (example_imports findNode_member) (notifications setSubscriptions) (JBool False)
          example_state) = Inl (External ''new_value is missing'')
   \<and> fst (settings (example_imports findNode_member) (notifications setSubscriptions) (JBool False)
          example_state)
      \<noteq> Inl (InnertubeError ''Invalid option''
              (JObj [(''option'', JBool False),
                     (''available_options'', JArr [JStr ''ON'', JStr ''OFF''])]))"
proof -
  have "fst (settings (example_imports findNode_member) (notifications setSubscriptions) (JBool False)
          example_state) = Inl (External ''new_value is missing'')"
    by code_simp
  then show ?thesis by simp
qed

end
